theory Spec2Isabelle
  imports Main "HOL-Library.Word" "HOL-Library.Sublist"
begin

section \<open>The engine cache manager (engine/cache/manager.go)\<close>

text \<open>
  The manager talks to four collaborators through Go interfaces: the remote cache
  service (\<open>Service\<close>), the local key store and result store of the solver, and the
  worker. None of them is implemented in the file, so each interface method is a field
  of a record: a function from the arguments and the state of the outside world
  (of an arbitrary type \<open>'w\<close>) to the returned value and the new world. A method that
  returns \<open>(T, error)\<close> returns \<open>error + T\<close> here (\<open>Inl\<close> the error), a method that
  returns only \<open>error\<close> returns \<open>error option\<close>. Every call the manager makes is also
  appended to a trace of events, so that statements about which calls were made, with
  which arguments and in which order, can be written down.

  The model is sequential: one call of \<open>NewManager\<close>, \<open>Import\<close>, \<open>Export\<close> or \<open>Close\<close>
  runs from its entry to its return with no other goroutine interleaved. A \<open>go\<close>
  statement is the event \<open>EvGo\<close> of the goroutine it starts. The reader-writer mutex has
  no effect in such a run and is left out. Contexts are left out as well: a cancelled
  context shows as an error returned by the collaborator that observed it. Pointers
  handed back by a collaborator together with a nil error are taken to be non-nil.
\<close>

subsection \<open>Data\<close>

type_synonym digest = string

text \<open>\<open>time.Duration\<close> and \<open>int64\<close> are 64-bit two's complement integers.\<close>

type_synonym int64 = "64 word"
type_synonym Duration = "64 word"

text \<open>
  \<open>time.Time\<close>, as far as the manager looks at it: the seconds since January 1, year 1,
  00:00:00 UTC and the nanoseconds within the second. \<open>IsZero\<close> holds at that instant.
\<close>

record Time =
  sec :: int
  nsec :: int

definition IsZero :: "Time \<Rightarrow> bool" where
  "IsZero t = (sec t = 0 \<and> nsec t = 0)"

text \<open>
  An error value. \<open>Error msg\<close> is an error with that message, from \<open>fmt.Errorf\<close> or
  from a collaborator; \<open>UnexpectedStatusCode n\<close> is
  \<open>fmt.Errorf("unexpected status code %d", n)\<close>.
\<close>

datatype error = Error string | UnexpectedStatusCode int

fun message_contains :: "error \<Rightarrow> string \<Rightarrow> bool" where
  "message_contains (Error msg) frag = sublist frag msg"
| "message_contains (UnexpectedStatusCode n) frag = False"

text \<open>\<open>ocispecs.Descriptor\<close>\<close>

record Descriptor =
  Descriptor_MediaType :: string
  Descriptor_Digest :: digest
  Descriptor_Size :: int64
  Descriptor_Annotations :: "string \<rightharpoonup> string"

text \<open>
  \<open>remotecache.CacheLayer\<close> with its \<open>Annotations *LayerAnnotations\<close>; the pointer is an
  option, \<open>None\<close> for nil.
\<close>

record LayerAnnotations =
  LayerAnnotations_MediaType :: string
  LayerAnnotations_DiffID :: digest
  LayerAnnotations_Size :: int64
  LayerAnnotations_CreatedAt :: Time

record CacheLayer =
  CacheLayer_Blob :: digest
  CacheLayer_Annotations :: "LayerAnnotations option"

text \<open>
  A \<open>content.Provider\<close>: the manager's own \<open>layerProvider\<close>, or the provider of a remote
  handed out by the worker.
\<close>

datatype Provider = layerProvider | RemoteProvider nat

record DescriptorProviderPair =
  Pair_Descriptor :: Descriptor
  Pair_Provider :: Provider

type_synonym DescriptorProvider = "digest \<rightharpoonup> DescriptorProviderPair"

text \<open>
  The types of the service API (\<open>CacheKey\<close>, \<open>Link\<close>, \<open>Record\<close>, the requests and the
  responses) with the fields the manager reads or writes. \<open>Link_Input\<close> is a Go \<open>int\<close>
  copied from a \<open>solver.Index\<close>; no arithmetic is done on it.
\<close>

record Config =
  ImportPeriod :: Duration
  ExportPeriod :: Duration
  ExportTimeout :: Duration

record GetConfigRequest =
  GetConfigRequest_EngineID :: string

text \<open>
  \<open>remotecache.CacheConfig\<close>: the manager reads the layers and passes the whole value
  on to \<open>remotecache.ParseConfig\<close>; of the records only the digests are kept here.
\<close>

record CacheConfig =
  CacheConfig_Layers :: "CacheLayer list"
  CacheConfig_Records :: "digest list"

record Result =
  Result_ID :: string
  Result_CreatedAt :: Time
  Result_Description :: string

record CacheKey =
  CacheKey_ID :: string
  CacheKey_Results :: "Result list"

record Link =
  Link_ID :: string
  Link_LinkedID :: string
  Link_Input :: int
  Link_Digest :: digest
  Link_Selector :: digest

record Record =
  Record_CacheRefID :: string
  Record_Digest :: digest

record RecordLayers =
  RecordLayers_RecordDigest :: digest
  RecordLayers_Layers :: "Descriptor list"

record UpdateCacheRecordsRequest =
  CacheKeys :: "CacheKey list"
  Links :: "Link list"

record UpdateCacheRecordsResponse =
  ExportRecords :: "Record list"

record UpdateCacheLayersRequest =
  UpdatedRecords :: "RecordLayers list"

record GetLayerUploadURLRequest =
  GetLayerUploadURLRequest_Digest :: digest

record GetLayerUploadURLResponse =
  URL :: string

text \<open>The types of the solver, the worker and the HTTP client that the manager handles.\<close>

record CacheInfoLink =
  CacheInfoLink_Input :: int
  CacheInfoLink_Output :: int
  CacheInfoLink_Digest :: digest
  CacheInfoLink_Selector :: digest

record CacheResult =
  CacheResult_CreatedAt :: Time
  CacheResult_ID :: string

text \<open>
  A \<open>cache.ImmutableRef\<close> with what its getters \<open>ID()\<close> and \<open>GetDescription()\<close> return.
  What \<open>Sys()\<close> of a loaded \<open>solver.Result\<close> returns is either a \<open>*worker.WorkerRef\<close>,
  with its \<open>ImmutableRef\<close>, or a value of another type.
\<close>

record ImmutableRef =
  ImmutableRef_ID :: string
  ImmutableRef_Description :: string

datatype Sys = WorkerRef ImmutableRef | OtherSys

record SolverResult =
  SolverResult_ID :: string
  SolverResult_Sys :: Sys

record Remote =
  Remote_Descriptors :: "Descriptor list"
  Remote_Provider :: Provider

datatype Compression = Uncompressed | Gzip | EStargz | Zstd

text \<open>A \<open>content.ReaderAt\<close> with what its getter \<open>Size()\<close> returns.\<close>

record ReaderAt =
  ReaderAt_Size :: int64

record Request =
  Request_Method :: string
  Request_URL :: string
  Request_Body :: ReaderAt
  Request_ContentLength :: int64

record Response =
  StatusCode :: int

definition StatusOK :: int where
  "StatusOK = 200"

subsection \<open>The collaborators\<close>

text \<open>
  The remote cache service, \<open>m.cacheClient\<close>: one field for each method of the
  \<open>Service\<close> interface.
\<close>

record 'w Service =
  GetConfig :: "GetConfigRequest \<Rightarrow> 'w \<Rightarrow> (error + Config) \<times> 'w"
  ImportCache :: "'w \<Rightarrow> (error + CacheConfig) \<times> 'w"
  UpdateCacheRecords ::
    "UpdateCacheRecordsRequest \<Rightarrow> 'w \<Rightarrow> (error + UpdateCacheRecordsResponse) \<times> 'w"
  UpdateCacheLayers :: "UpdateCacheLayersRequest \<Rightarrow> 'w \<Rightarrow> error option \<times> 'w"
  GetLayerUploadURL ::
    "GetLayerUploadURLRequest \<Rightarrow> 'w \<Rightarrow> (error + GetLayerUploadURLResponse) \<times> 'w"

text \<open>
  A \<open>solver.CacheKeyStorage\<close> is given by what its three walks do at the time of an
  export. A walk calls the callback on the items of the list, in order; it stops and
  returns the callback's error as soon as the callback returns one; after the last item
  it returns the error of the second component, if there is one (a failure of the
  store itself).
\<close>

record KeyStore =
  Walk :: "string list \<times> error option"
  WalkBacklinks :: "string \<Rightarrow> (string \<times> CacheInfoLink) list \<times> error option"
  WalkResults :: "string \<Rightarrow> CacheResult list \<times> error option"

record 'w ResultStore =
  ResultStore_Load :: "CacheResult \<Rightarrow> 'w \<Rightarrow> (error + SolverResult) \<times> 'w"

text \<open>\<open>Worker_Get id\<close> is \<open>Worker.CacheManager().Get(ctx, id, nil, cache.NoUpdateLastUsed)\<close>.\<close>

record 'w Worker =
  Worker_Get :: "string \<Rightarrow> 'w \<Rightarrow> (error + ImmutableRef) \<times> 'w"

text \<open>
  \<open>solver.NewCacheManager\<close> and \<open>solver.NewCombinedCacheManager\<close> build the cache
  managers of the solver. A cache manager is the term that built it; what its methods
  do is a parameter of the model (\<open>CacheManager_call\<close> below).
\<close>

datatype 'w CacheManager =
    NewCacheManager string KeyStore "'w ResultStore"
  | NewCombinedCacheManager "'w CacheManager list" "'w CacheManager"

datatype solver_call = Query | Records | Load | Save

text \<open>
  The library functions and the methods of the objects that the collaborators hand out.
  \<open>'c\<close> is the type of \<open>remotecache.CacheChains\<close>; \<open>'a\<close> and \<open>'b\<close> are the arguments and
  the results of the four methods of a \<open>solver.CacheManager\<close>.
\<close>

record ('w, 'c, 'a, 'b) lib =
  newClient :: "string \<Rightarrow> error + 'w Service"
  Result_Release :: "SolverResult \<Rightarrow> 'w \<Rightarrow> 'w"
  ImmutableRef_Release :: "ImmutableRef \<Rightarrow> 'w \<Rightarrow> 'w"
  ImmutableRef_GetRemotes ::
    "ImmutableRef \<Rightarrow> bool \<Rightarrow> Compression \<Rightarrow> bool \<Rightarrow> 'w \<Rightarrow> (error + Remote list) \<times> 'w"
  Provider_ReaderAt :: "Provider \<Rightarrow> Descriptor \<Rightarrow> 'w \<Rightarrow> (error + ReaderAt) \<times> 'w"
  ReaderAt_Close :: "ReaderAt \<Rightarrow> 'w \<Rightarrow> 'w"
  http_NewRequest :: "string \<Rightarrow> string \<Rightarrow> error option"
  httpClient_Do :: "Request \<Rightarrow> 'w \<Rightarrow> (error + Response) \<times> 'w"
  Body_Close :: "Response \<Rightarrow> 'w \<Rightarrow> 'w"
  Time_MarshalText :: "Time \<Rightarrow> error + string"
  remotecache_ParseConfig :: "CacheConfig \<Rightarrow> DescriptorProvider \<Rightarrow> error + 'c"
  remotecache_NewCacheKeyStorage :: "'c \<Rightarrow> 'w Worker \<Rightarrow> error + KeyStore \<times> 'w ResultStore"
  CacheManager_call :: "'w CacheManager \<Rightarrow> solver_call \<Rightarrow> 'a \<Rightarrow> 'w \<Rightarrow> 'b \<times> 'w"

subsection \<open>The manager\<close>

record 'w ManagerConfig =
  ManagerConfig_KeyStore :: KeyStore
  ManagerConfig_ResultStore :: "'w ResultStore"
  ManagerConfig_Worker :: "'w Worker"
  ServiceURL :: string
  EngineID :: string

text \<open>A channel of \<open>struct{}\<close> on which nothing is ever sent: all that matters is whether it is closed.\<close>

datatype chan = Open | Closed

record 'w manager =
  ManagerConfig :: "'w ManagerConfig"
  cacheClient :: "'w Service"
  runtimeConfig :: Config
  localCache :: "'w CacheManager"
  inner :: "'w CacheManager option"
  startCloseCh :: chan
  doneCh :: chan
  stopCacheMountSync :: "('w \<Rightarrow> error option \<times> 'w) option"

text \<open>The goroutines that \<open>NewManager\<close> starts, with the periods they run on.\<close>

datatype goroutine =
    CancelImportOnClose
  | ImportLoop Duration
  | ExportLoop Duration Duration

text \<open>
  The calls to the collaborators. The events of the calls whose result decides what
  \<open>Export\<close> does next also record what the call returned.
\<close>

datatype event =
    EvGetConfig GetConfigRequest
  | EvImportCache
  | EvUpdateCacheRecords UpdateCacheRecordsRequest
  | EvUpdateCacheLayers UpdateCacheLayersRequest
  | EvGetLayerUploadURL GetLayerUploadURLRequest "error + GetLayerUploadURLResponse"
  | EvLoad CacheResult "error + SolverResult"
  | EvResultRelease SolverResult
  | EvGet string "error + ImmutableRef"
  | EvRefRelease ImmutableRef
  | EvGetRemotes ImmutableRef "error + Remote list"
  | EvReaderAt Provider Descriptor "error + ReaderAt"
  | EvReaderAtClose ReaderAt
  | EvDo Request "error + Response"
  | EvBodyClose Response
  | EvGo goroutine

record 'w state =
  world :: 'w
  trace :: "event list"

text \<open>
  A call that returns a value (the event may record it), and a call whose return value
  the manager drops.
\<close>

definition call :: "('r \<Rightarrow> event) \<Rightarrow> ('w \<Rightarrow> 'r \<times> 'w) \<Rightarrow> 'w state \<Rightarrow> 'r \<times> 'w state" where
  "call ev f s = (case f (world s) of (r, w') \<Rightarrow> (r, \<lparr>world = w', trace = trace s @ [ev r]\<rparr>))"

definition perform :: "event \<Rightarrow> ('w \<Rightarrow> 'w) \<Rightarrow> 'w state \<Rightarrow> 'w state" where
  "perform e f s = \<lparr>world = f (world s), trace = trace s @ [e]\<rparr>"

text \<open>
  A \<open>for ... range\<close> loop whose body can return an error from the enclosing function:
  the body is a function on the variables it assigns, and the loop stops at the first
  error. A walk of the key store runs its callback the same way and then returns the
  store's own error, if any.
\<close>

fun for_range :: "('x \<Rightarrow> 'v \<Rightarrow> error option \<times> 'v) \<Rightarrow> 'x list \<Rightarrow> 'v \<Rightarrow> error option \<times> 'v" where
  "for_range body [] v = (None, v)"
| "for_range body (x # xs) v =
     (case body x v of
        (Some err, v') \<Rightarrow> (Some err, v')
      | (None, v') \<Rightarrow> for_range body xs v')"

definition walk ::
  "'x list \<times> error option \<Rightarrow> ('x \<Rightarrow> 'v \<Rightarrow> error option \<times> 'v) \<Rightarrow> 'v \<Rightarrow> error option \<times> 'v" where
  "walk store fn v =
     (case for_range fn (fst store) v of
        (Some err, v') \<Rightarrow> (Some err, v')
      | (None, v') \<Rightarrow> (snd store, v'))"

subsection \<open>descriptorProviderPair\<close>

text \<open>
  \<open>MarshalText\<close> is \<open>time.Time.MarshalText\<close> of the Go library, a parameter of the
  model: it returns the RFC 3339 text of the time, or an error when the time has no
  such text.
\<close>

definition descriptorProviderPair ::
  "(Time \<Rightarrow> error + string) \<Rightarrow> CacheLayer \<Rightarrow> error + DescriptorProviderPair" where
  "descriptorProviderPair MarshalText layerMetadata =
     (case CacheLayer_Annotations layerMetadata of
        None \<Rightarrow> Inl (Error (''missing annotations for layer '' @ CacheLayer_Blob layerMetadata))
      | Some anns \<Rightarrow>
          let annotations = Map.empty in
          if LayerAnnotations_DiffID anns = ''''
          then Inl (Error (''missing diffID for layer '' @ CacheLayer_Blob layerMetadata))
          else
            let annotations = annotations(''containerd.io/uncompressed'' \<mapsto> LayerAnnotations_DiffID anns) in
            (case (if \<not> IsZero (LayerAnnotations_CreatedAt anns)
                   then (case MarshalText (LayerAnnotations_CreatedAt anns) of
                           Inl err \<Rightarrow> Inl err
                         | Inr createdAt \<Rightarrow> Inr (annotations(''buildkit/createdat'' \<mapsto> createdAt)))
                   else Inr annotations) of
               Inl err \<Rightarrow> Inl err
             | Inr annotations \<Rightarrow>
                 let desc = \<lparr> Descriptor_MediaType = LayerAnnotations_MediaType anns,
                              Descriptor_Digest = CacheLayer_Blob layerMetadata,
                              Descriptor_Size = LayerAnnotations_Size anns,
                              Descriptor_Annotations = annotations \<rparr>
                 in Inr \<lparr> Pair_Descriptor = desc, Pair_Provider = layerProvider \<rparr>))"

subsection \<open>Import\<close>

text \<open>
  The body of the loop of \<open>Import\<close> over the advertised layers: it assigns
  \<open>descProvider\<close>, and returns from \<open>Import\<close> at a layer that has no descriptor.
\<close>

definition Import_layer ::
  "(Time \<Rightarrow> error + string) \<Rightarrow> CacheLayer \<Rightarrow> DescriptorProvider \<Rightarrow> error option \<times> DescriptorProvider" where
  "Import_layer MarshalText layer descProvider =
     (case descriptorProviderPair MarshalText layer of
        Inl err \<Rightarrow> (Some err, descProvider)
      | Inr providerPair \<Rightarrow> (None, descProvider(CacheLayer_Blob layer \<mapsto> providerPair)))"

definition ID :: "'w manager \<Rightarrow> string" where
  "ID m = ''enginecache''"

definition Import ::
  "('w, 'c, 'a, 'b) lib \<Rightarrow> 'w manager \<Rightarrow> 'w state \<Rightarrow> error option \<times> 'w manager \<times> 'w state" where
  "Import lib m s =
     (case call (\<lambda>_. EvImportCache) (ImportCache (cacheClient m)) s of
        (Inl err, s1) \<Rightarrow> (Some err, m, s1)
      | (Inr cacheConfig, s1) \<Rightarrow>
          (case for_range (Import_layer (Time_MarshalText lib)) (CacheConfig_Layers cacheConfig) Map.empty of
             (Some err, descProvider) \<Rightarrow> (Some err, m, s1)
           | (None, descProvider) \<Rightarrow>
               (case remotecache_ParseConfig lib cacheConfig descProvider of
                  Inl err \<Rightarrow> (Some err, m, s1)
                | Inr chain \<Rightarrow>
                    (case remotecache_NewCacheKeyStorage lib chain (ManagerConfig_Worker (ManagerConfig m)) of
                       Inl err \<Rightarrow> (Some err, m, s1)
                     | Inr (keyStore, resultStore) \<Rightarrow>
                         let importedCache = NewCacheManager (ID m) keyStore resultStore;
                             newInner = NewCombinedCacheManager [importedCache] (localCache m)
                         in (None, m\<lparr>inner := Some newInner\<rparr>, s1)))))"

subsection \<open>Export\<close>

text \<open>
  \<open>pushLayer\<close>. The deferred calls run when the function returns, last deferred first:
  \<open>resp.Body.Close()\<close>, then \<open>req.Body.Close()\<close>, then \<open>readerAt.Close()\<close>. The body of
  the request is a plain reader, which \<open>http.NewRequest\<close> wraps in a closer that does
  nothing, so \<open>req.Body.Close()\<close> is no event.
\<close>

definition pushLayer ::
  "('w, 'c, 'a, 'b) lib \<Rightarrow> 'w manager \<Rightarrow> Descriptor \<Rightarrow> Provider \<Rightarrow> 'w state \<Rightarrow> error option \<times> 'w state" where
  "pushLayer lib m layerDesc provider s =
     (let urlReq = \<lparr> GetLayerUploadURLRequest_Digest = Descriptor_Digest layerDesc \<rparr> in
      case call (EvGetLayerUploadURL urlReq) (GetLayerUploadURL (cacheClient m) urlReq) s of
        (Inl err, s1) \<Rightarrow> (Some err, s1)
      | (Inr getURLResp, s1) \<Rightarrow>
          (case call (EvReaderAt provider layerDesc) (Provider_ReaderAt lib provider layerDesc) s1 of
             (Inl err, s2) \<Rightarrow> (Some err, s2)
           | (Inr readerAt, s2) \<Rightarrow>
               (case (case http_NewRequest lib ''PUT'' (URL getURLResp) of
                        Some err \<Rightarrow> (Some err, s2)
                      | None \<Rightarrow>
                          let req = \<lparr> Request_Method = ''PUT'', Request_URL = URL getURLResp,
                                      Request_Body = readerAt,
                                      Request_ContentLength = ReaderAt_Size readerAt \<rparr> in
                          (case call (EvDo req) (httpClient_Do lib req) s2 of
                             (Inl err, s3) \<Rightarrow> (Some err, s3)
                           | (Inr resp, s3) \<Rightarrow>
                               (if StatusCode resp \<noteq> StatusOK
                                then Some (UnexpectedStatusCode (StatusCode resp))
                                else None,
                                perform (EvBodyClose resp) (Body_Close lib resp) s3))) of
                  (rerr, s4) \<Rightarrow>
                    (rerr, perform (EvReaderAtClose readerAt) (ReaderAt_Close lib readerAt) s4))))"

text \<open>
  The callback of \<open>WalkBacklinks\<close>: it appends to \<open>links\<close>. (The variable \<open>id\<close> of
  the source is \<open>id'\<close> here.)
\<close>

definition WalkBacklinks_fn ::
  "string \<Rightarrow> string \<times> CacheInfoLink \<Rightarrow> Link list \<Rightarrow> error option \<times> Link list" where
  "WalkBacklinks_fn id' = (\<lambda>(linkedID, linkInfo) links.
     let link = \<lparr> Link_ID = id', Link_LinkedID = linkedID,
                   Link_Input = CacheInfoLink_Input linkInfo,
                   Link_Digest = CacheInfoLink_Digest linkInfo,
                   Link_Selector = CacheInfoLink_Selector linkInfo \<rparr>
     in (None, links @ [link]))"

text \<open>
  The callback of \<open>WalkResults\<close>: it assigns \<open>cacheKey\<close>. The release of the loaded
  result is deferred, so it runs on both returns that follow the load.
\<close>

definition WalkResults_fn ::
  "('w, 'c, 'a, 'b) lib \<Rightarrow> 'w manager \<Rightarrow> string \<Rightarrow> CacheResult \<Rightarrow> CacheKey \<times> 'w state
     \<Rightarrow> error option \<times> CacheKey \<times> 'w state" where
  "WalkResults_fn lib m id' cacheResult = (\<lambda>(cacheKey, s).
     case call (EvLoad cacheResult)
            (ResultStore_Load (ManagerConfig_ResultStore (ManagerConfig m)) cacheResult) s of
       (Inl err, s1) \<Rightarrow> (None, cacheKey, s1)
     | (Inr res, s1) \<Rightarrow>
         (case (case SolverResult_Sys res of
                  OtherSys \<Rightarrow> (None, cacheKey)
                | WorkerRef cacheRef \<Rightarrow>
                    (None, cacheKey\<lparr>CacheKey_Results := CacheKey_Results cacheKey @
                       [\<lparr> Result_ID = ImmutableRef_ID cacheRef,
                          Result_CreatedAt = CacheResult_CreatedAt cacheResult,
                          Result_Description = ImmutableRef_Description cacheRef \<rparr>]\<rparr>)) of
            (rerr, cacheKey') \<Rightarrow>
              (rerr, cacheKey', perform (EvResultRelease res) (Result_Release lib res) s1)))"

text \<open>
  The callback of \<open>Walk\<close>: it assigns \<open>cacheKeys\<close> and \<open>links\<close>.
\<close>

definition Walk_fn ::
  "('w, 'c, 'a, 'b) lib \<Rightarrow> 'w manager \<Rightarrow> string \<Rightarrow> CacheKey list \<times> Link list \<times> 'w state
     \<Rightarrow> error option \<times> CacheKey list \<times> Link list \<times> 'w state" where
  "Walk_fn lib m id' = (\<lambda>(cacheKeys, links, s).
     let cacheKey = \<lparr> CacheKey_ID = id', CacheKey_Results = [] \<rparr> in
     case walk (WalkBacklinks (ManagerConfig_KeyStore (ManagerConfig m)) id') (WalkBacklinks_fn id') links of
       (Some err, links1) \<Rightarrow> (Some err, cacheKeys, links1, s)
     | (None, links1) \<Rightarrow>
         (case walk (WalkResults (ManagerConfig_KeyStore (ManagerConfig m)) id')
                 (WalkResults_fn lib m id') (cacheKey, s) of
            (Some err, cacheKey1, s1) \<Rightarrow> (Some err, cacheKeys, links1, s1)
          | (None, cacheKey1, s1) \<Rightarrow> (None, cacheKeys @ [cacheKey1], links1, s1)))"

text \<open>
  The body of the loop over \<open>recordsToExport\<close>, a function literal called on the spot:
  it assigns \<open>updatedRecords\<close>. The release of the cache ref is deferred.
\<close>

definition Export_record ::
  "('w, 'c, 'a, 'b) lib \<Rightarrow> 'w manager \<Rightarrow> Record \<Rightarrow> RecordLayers list \<times> 'w state
     \<Rightarrow> error option \<times> RecordLayers list \<times> 'w state" where
  "Export_record lib m record = (\<lambda>(updatedRecords, s).
     case call (EvGet (Record_CacheRefID record))
            (Worker_Get (ManagerConfig_Worker (ManagerConfig m)) (Record_CacheRefID record)) s of
       (Inl err, s1) \<Rightarrow> (None, updatedRecords, s1)
     | (Inr cacheRef, s1) \<Rightarrow>
         (case (case call (EvGetRemotes cacheRef)
                       (ImmutableRef_GetRemotes lib cacheRef True Zstd False) s1 of
                  (Inl err, s2) \<Rightarrow> (Some err, updatedRecords, s2)
                | (Inr remotes, s2) \<Rightarrow>
                    (case remotes of
                       [] \<Rightarrow> (None, updatedRecords, s2)
                     | remote # _ \<Rightarrow>
                         (case for_range (\<lambda>layer. pushLayer lib m layer (Remote_Provider remote))
                                 (Remote_Descriptors remote) s2 of
                            (Some err, s3) \<Rightarrow> (Some err, updatedRecords, s3)
                          | (None, s3) \<Rightarrow>
                              (None,
                               updatedRecords @
                                 [\<lparr> RecordLayers_RecordDigest = Record_Digest record,
                                    RecordLayers_Layers = Remote_Descriptors remote \<rparr>],
                               s3)))) of
            (rerr, updatedRecords', s4) \<Rightarrow>
              (rerr, updatedRecords',
               perform (EvRefRelease cacheRef) (ImmutableRef_Release lib cacheRef) s4)))"

definition Export ::
  "('w, 'c, 'a, 'b) lib \<Rightarrow> 'w manager \<Rightarrow> 'w state \<Rightarrow> error option \<times> 'w state" where
  "Export lib m s =
     (case walk (Walk (ManagerConfig_KeyStore (ManagerConfig m))) (Walk_fn lib m) ([], [], s) of
        (Some err, cacheKeys, links, s1) \<Rightarrow> (Some err, s1)
      | (None, cacheKeys, links, s1) \<Rightarrow>
          let recordsReq = \<lparr> CacheKeys = cacheKeys, Links = links \<rparr> in
          (case call (\<lambda>_. EvUpdateCacheRecords recordsReq)
                  (UpdateCacheRecords (cacheClient m) recordsReq) s1 of
             (Inl err, s2) \<Rightarrow> (Some err, s2)
           | (Inr updateCacheRecordsResp, s2) \<Rightarrow>
               let recordsToExport = ExportRecords updateCacheRecordsResp in
               if length recordsToExport = 0 then (None, s2)
               else
                 (case for_range (Export_record lib m) recordsToExport ([], s2) of
                    (Some err, updatedRecords, s3) \<Rightarrow> (Some err, s3)
                  | (None, updatedRecords, s3) \<Rightarrow>
                      let layersReq = \<lparr> UpdatedRecords = updatedRecords \<rparr> in
                      call (\<lambda>_. EvUpdateCacheLayers layersReq)
                        (UpdateCacheLayers (cacheClient m) layersReq) s3)))"

subsection \<open>NewManager\<close>

text \<open>
  What \<open>NewManager\<close> returns as a \<open>Manager\<close>: a \<open>defaultCacheManager\<close> around a cache
  manager of the solver, or the \<open>*manager\<close> it built.
\<close>

datatype 'w Manager =
    defaultCacheManager "'w CacheManager"
  | ServiceManager "'w manager"

text \<open>
  \<open>NewManager\<close>. The value \<open>m\<close> is built once the service client is there, with the
  fields the source sets before and after that point; the default manager does not
  read it. The three \<open>go\<close> statements are recorded in the order of the source.
\<close>

definition NewManager ::
  "('w, 'c, 'a, 'b) lib \<Rightarrow> 'w ManagerConfig \<Rightarrow> 'w state \<Rightarrow> (error + 'w Manager) \<times> 'w state" where
  "NewManager lib managerConfig s =
     (let localCache' = NewCacheManager ''local'' (ManagerConfig_KeyStore managerConfig)
                          (ManagerConfig_ResultStore managerConfig) in
      if ServiceURL managerConfig = '''' then (Inr (defaultCacheManager localCache'), s)
      else
        (case newClient lib (ServiceURL managerConfig) of
           Inl err \<Rightarrow> (Inl err, s)
         | Inr serviceClient \<Rightarrow>
             let configReq = \<lparr> GetConfigRequest_EngineID = EngineID managerConfig \<rparr> in
             (case call (\<lambda>_. EvGetConfig configReq) (GetConfig serviceClient configReq) s of
                (Inl err, s1) \<Rightarrow> (Inl err, s1)
              | (Inr config, s1) \<Rightarrow>
                  if ImportPeriod config = 0 \<or> ExportPeriod config = 0 \<or> ExportTimeout config = 0
                  then (Inl (Error ''invalid cache config: import/export periods must be non-zero''), s1)
                  else
                    let m = \<lparr> ManagerConfig = managerConfig,
                              cacheClient = serviceClient,
                              runtimeConfig = config,
                              localCache = localCache',
                              inner = None,
                              startCloseCh = Open,
                              doneCh = Open,
                              stopCacheMountSync = None \<rparr> in
                    (case Import lib m s1 of
                       (Some err, m', s2) \<Rightarrow> (Inl err, s2)
                     | (None, m', s2) \<Rightarrow>
                         (Inr (ServiceManager m'),
                          perform (EvGo (ExportLoop (ExportPeriod config) (ExportTimeout config))) id
                            (perform (EvGo (ImportLoop (ImportPeriod config))) id
                               (perform (EvGo CancelImportOnClose) id s2)))))))"

subsection \<open>Close and the methods of the solver\<close>

text \<open>
  How a call ends: it returns, it panics, or it blocks for ever.
\<close>

datatype 'r outcome = Returns 'r | Panics string | Blocks

text \<open>
  \<open>Close\<close> of the manager. Closing a channel that is closed already panics. The
  \<open>select\<close> at the end returns when \<open>doneCh\<close> is closed or the context is done; the
  argument \<open>woken\<close> says whether one of the two happens while \<open>Close\<close> waits.
\<close>

definition Close ::
  "'w manager \<Rightarrow> bool \<Rightarrow> 'w state \<Rightarrow> error option outcome \<times> 'w manager \<times> 'w state" where
  "Close m woken s =
     (case startCloseCh m of
        Closed \<Rightarrow> (Panics ''close of closed channel'', m, s)
      | Open \<Rightarrow>
          let m1 = m\<lparr>startCloseCh := Closed\<rparr> in
          (case (case stopCacheMountSync m1 of
                   None \<Rightarrow> (None, s)
                 | Some stop \<Rightarrow> (case stop (world s) of (rerr, w') \<Rightarrow> (rerr, s\<lparr>world := w'\<rparr>))) of
             (rerr, s1) \<Rightarrow>
               if doneCh m1 = Closed \<or> woken then (Returns rerr, m1, s1) else (Blocks, m1, s1)))"

text \<open>
  \<open>Query\<close>, \<open>Records\<close>, \<open>Load\<close> and \<open>Save\<close> of the manager: each takes the lock and calls
  the method of the same name on \<open>m.inner\<close>. A call on a nil \<open>inner\<close> panics.
\<close>

definition manager_call ::
  "('w, 'c, 'a, 'b) lib \<Rightarrow> 'w manager \<Rightarrow> solver_call \<Rightarrow> 'a \<Rightarrow> 'w state \<Rightarrow> 'b outcome \<times> 'w state" where
  "manager_call lib m c arg s =
     (case inner m of
        None \<Rightarrow> (Panics ''invalid memory address or nil pointer dereference'', s)
      | Some cm \<Rightarrow>
          (case CacheManager_call lib cm c arg (world s) of
             (r, w') \<Rightarrow> (Returns r, s\<lparr>world := w'\<rparr>)))"

text \<open>
  The methods of a \<open>Manager\<close>. A \<open>defaultCacheManager\<close> embeds its cache manager, whose
  four methods are promoted; its \<open>StartCacheMountSynchronization\<close> and \<open>Close\<close> return
  nil.
\<close>

definition Manager_call ::
  "('w, 'c, 'a, 'b) lib \<Rightarrow> 'w Manager \<Rightarrow> solver_call \<Rightarrow> 'a \<Rightarrow> 'w state \<Rightarrow> 'b outcome \<times> 'w state" where
  "Manager_call lib M c arg s =
     (case M of
        defaultCacheManager cm \<Rightarrow>
          (case CacheManager_call lib cm c arg (world s) of
             (r, w') \<Rightarrow> (Returns r, s\<lparr>world := w'\<rparr>))
      | ServiceManager m \<Rightarrow> manager_call lib m c arg s)"

definition defaultCacheManager_StartCacheMountSynchronization ::
  "'w CacheManager \<Rightarrow> 'w state \<Rightarrow> error option outcome \<times> 'w state" where
  "defaultCacheManager_StartCacheMountSynchronization cm s = (Returns None, s)"

definition defaultCacheManager_Close ::
  "'w CacheManager \<Rightarrow> 'w state \<Rightarrow> error option outcome \<times> 'w state" where
  "defaultCacheManager_Close cm s = (Returns None, s)"

subsection \<open>Reading a trace\<close>

text \<open>
  The requests of the calls of \<open>UpdateCacheLayers\<close>, of \<open>UpdateCacheRecords\<close> and of the
  HTTP client in a trace, and the goroutines started in it.
\<close>

fun commits :: "event list \<Rightarrow> UpdateCacheLayersRequest list" where
  "commits [] = []"
| "commits (EvUpdateCacheLayers req # es) = req # commits es"
| "commits (e # es) = commits es"

fun announces :: "event list \<Rightarrow> UpdateCacheRecordsRequest list" where
  "announces [] = []"
| "announces (EvUpdateCacheRecords req # es) = req # announces es"
| "announces (e # es) = announces es"

fun uploads :: "event list \<Rightarrow> Request list" where
  "uploads [] = []"
| "uploads (EvDo req resp # es) = req # uploads es"
| "uploads (e # es) = uploads es"

fun goroutines :: "event list \<Rightarrow> goroutine list" where
  "goroutines [] = []"
| "goroutines (EvGo g # es) = g # goroutines es"
| "goroutines (e # es) = goroutines es"

text \<open>The events of the first phase of \<open>Export\<close>, and those of its third phase.\<close>

fun walk_event :: "event \<Rightarrow> bool" where
  "walk_event (EvLoad cacheResult r) = True"
| "walk_event (EvResultRelease res) = True"
| "walk_event e = False"

fun upload_event :: "event \<Rightarrow> bool" where
  "upload_event (EvGet k r) = True"
| "upload_event (EvRefRelease cacheRef) = True"
| "upload_event (EvGetRemotes cacheRef r) = True"
| "upload_event (EvGetLayerUploadURL req r) = True"
| "upload_event (EvReaderAt provider desc r) = True"
| "upload_event (EvReaderAtClose readerAt) = True"
| "upload_event (EvDo req r) = True"
| "upload_event (EvBodyClose resp) = True"
| "upload_event e = False"

text \<open>
  \<open>s'\<close> comes after \<open>s\<close> in a run whose new events all satisfy \<open>P\<close>.
\<close>

definition extends :: "(event \<Rightarrow> bool) \<Rightarrow> 'w state \<Rightarrow> 'w state \<Rightarrow> bool" where
  "extends P s s' = (\<exists>evs. trace s' = trace s @ evs \<and> list_all P evs)"

subsection \<open>The third phase of Export, record by record\<close>

text \<open>
  What happens to one requested record, in the words of the specification: it is
  skipped when its ref is not found or yields no remote, it fails when the remotes
  cannot be obtained or a layer cannot be pushed, and otherwise it is uploaded, with
  the \<open>RecordLayers\<close> to report. The ref is released on every path on which it was
  found.
\<close>

datatype record_outcome = Skipped | Failed error | Uploaded RecordLayers

definition phase3_record ::
  "('w, 'c, 'a, 'b) lib \<Rightarrow> 'w manager \<Rightarrow> Record \<Rightarrow> 'w state \<Rightarrow> record_outcome \<times> 'w state" where
  "phase3_record lib m record s =
     (case call (EvGet (Record_CacheRefID record))
            (Worker_Get (ManagerConfig_Worker (ManagerConfig m)) (Record_CacheRefID record)) s of
        (Inl err, s1) \<Rightarrow> (Skipped, s1)
      | (Inr cacheRef, s1) \<Rightarrow>
          (case (case call (EvGetRemotes cacheRef)
                        (ImmutableRef_GetRemotes lib cacheRef True Zstd False) s1 of
                   (Inl err, s2) \<Rightarrow> (Failed err, s2)
                 | (Inr [], s2) \<Rightarrow> (Skipped, s2)
                 | (Inr (remote # _), s2) \<Rightarrow>
                     (case for_range (\<lambda>layer. pushLayer lib m layer (Remote_Provider remote))
                             (Remote_Descriptors remote) s2 of
                        (Some err, s3) \<Rightarrow> (Failed err, s3)
                      | (None, s3) \<Rightarrow>
                          (Uploaded \<lparr> RecordLayers_RecordDigest = Record_Digest record,
                                      RecordLayers_Layers = Remote_Descriptors remote \<rparr>, s3))) of
             (outcome, s4) \<Rightarrow>
               (outcome, perform (EvRefRelease cacheRef) (ImmutableRef_Release lib cacheRef) s4)))"

text \<open>
  The outcomes of the records of a list, each record starting in the state the
  previous one left. The first failure ends the phase.
\<close>

fun phase3 ::
  "('w, 'c, 'a, 'b) lib \<Rightarrow> 'w manager \<Rightarrow> Record list \<Rightarrow> 'w state \<Rightarrow> record_outcome list" where
  "phase3 lib m [] s = []"
| "phase3 lib m (record # records) s =
     (case phase3_record lib m record s of
        (Failed err, s') \<Rightarrow> [Failed err]
      | (outcome, s') \<Rightarrow> outcome # phase3 lib m records s')"

fun uploaded :: "record_outcome list \<Rightarrow> RecordLayers list" where
  "uploaded [] = []"
| "uploaded (Uploaded recordLayers # outcomes) = recordLayers # uploaded outcomes"
| "uploaded (outcome # outcomes) = uploaded outcomes"

fun failures :: "record_outcome list \<Rightarrow> error list" where
  "failures [] = []"
| "failures (Failed err # outcomes) = err # failures outcomes"
| "failures (outcome # outcomes) = failures outcomes"

subsection \<open>The first phase of Export, read from its trace\<close>

text \<open>The link that the walk emits for a backlink of the key \<open>k\<close>.\<close>

definition flatten :: "string \<Rightarrow> string \<times> CacheInfoLink \<Rightarrow> Link" where
  "flatten k = (\<lambda>(linkedID, linkInfo).
     \<lparr> Link_ID = k, Link_LinkedID = linkedID,
       Link_Input = CacheInfoLink_Input linkInfo,
       Link_Digest = CacheInfoLink_Digest linkInfo,
       Link_Selector = CacheInfoLink_Selector linkInfo \<rparr>)"

text \<open>
  What a trace shows of one stored result: its load and, when the load succeeded, the
  release of what was loaded, as the very next event. The result is kept when its load
  succeeded and gave an immutable worker ref; every other result is skipped.
  \<open>read_result\<close> reads the events of one result at the head of a trace: it gives the
  \<open>Result\<close>s to emit (one when the result is kept, none when it is skipped) and the
  events that follow, or nothing when the trace does not begin with a load of this
  result.
\<close>

definition read_result :: "CacheResult \<Rightarrow> event list \<Rightarrow> (Result list \<times> event list) option" where
  "read_result cacheResult evs =
     (case evs of
        EvLoad cacheResult' (Inl err) # rest \<Rightarrow>
          if cacheResult' = cacheResult then Some ([], rest) else None
      | EvLoad cacheResult' (Inr res) # EvResultRelease res' # rest \<Rightarrow>
          if cacheResult' = cacheResult \<and> res' = res
          then Some ((case SolverResult_Sys res of
                        WorkerRef cacheRef \<Rightarrow>
                          [\<lparr> Result_ID = ImmutableRef_ID cacheRef,
                              Result_CreatedAt = CacheResult_CreatedAt cacheResult,
                              Result_Description = ImmutableRef_Description cacheRef \<rparr>]
                      | OtherSys \<Rightarrow> []),
                     rest)
          else None
      | _ \<Rightarrow> None)"

text \<open>
  The results of one key, in the order of the store: the \<open>Result\<close>s of those that were
  kept, and the events that follow.
\<close>

fun read_results :: "CacheResult list \<Rightarrow> event list \<Rightarrow> (Result list \<times> event list) option" where
  "read_results [] evs = Some ([], evs)"
| "read_results (cacheResult # cacheResults) evs =
     (case read_result cacheResult evs of
        None \<Rightarrow> None
      | Some (results, rest) \<Rightarrow>
          (case read_results cacheResults rest of
             None \<Rightarrow> None
           | Some (results', rest') \<Rightarrow> Some (results @ results', rest')))"



subsection \<open>The third phase of Export, read from its trace\<close>

text \<open>
  What a trace shows of the upload of one layer. The layer is uploaded when the service
  gave a URL for its digest, the provider opened its content, and the \<open>PUT\<close> of that
  content to that URL, with the size of the content as its length, was answered with
  the status 200. \<open>read_upload\<close> reads the events of one upload at the head of a trace:
  it gives whether the layer was uploaded and the events that follow, or nothing when
  the trace does not begin with an upload of this layer. The five shapes of an upload
  are: no URL; no content; content opened and closed with no request sent; a request
  with no response; a request with a response.
\<close>

definition read_upload :: "Provider \<Rightarrow> Descriptor \<Rightarrow> event list \<Rightarrow> (bool \<times> event list) option" where
  "read_upload provider desc evs =
     (case evs of
        EvGetLayerUploadURL urlReq (Inl err) # rest \<Rightarrow>
          if GetLayerUploadURLRequest_Digest urlReq = Descriptor_Digest desc
          then Some (False, rest) else None
      | EvGetLayerUploadURL urlReq (Inr urlResp) # EvReaderAt provider' desc' (Inl err) # rest \<Rightarrow>
          if GetLayerUploadURLRequest_Digest urlReq = Descriptor_Digest desc \<and>
             provider' = provider \<and> desc' = desc
          then Some (False, rest) else None
      | EvGetLayerUploadURL urlReq (Inr urlResp) # EvReaderAt provider' desc' (Inr readerAt) #
          EvReaderAtClose readerAt' # rest \<Rightarrow>
          if GetLayerUploadURLRequest_Digest urlReq = Descriptor_Digest desc \<and>
             provider' = provider \<and> desc' = desc \<and> readerAt' = readerAt
          then Some (False, rest) else None
      | EvGetLayerUploadURL urlReq (Inr urlResp) # EvReaderAt provider' desc' (Inr readerAt) #
          EvDo req (Inl err) # EvReaderAtClose readerAt' # rest \<Rightarrow>
          if GetLayerUploadURLRequest_Digest urlReq = Descriptor_Digest desc \<and>
             provider' = provider \<and> desc' = desc \<and> readerAt' = readerAt \<and>
             req = \<lparr> Request_Method = ''PUT'', Request_URL = URL urlResp, Request_Body = readerAt,
                     Request_ContentLength = ReaderAt_Size readerAt \<rparr>
          then Some (False, rest) else None
      | EvGetLayerUploadURL urlReq (Inr urlResp) # EvReaderAt provider' desc' (Inr readerAt) #
          EvDo req (Inr resp) # EvBodyClose resp' # EvReaderAtClose readerAt' # rest \<Rightarrow>
          if GetLayerUploadURLRequest_Digest urlReq = Descriptor_Digest desc \<and>
             provider' = provider \<and> desc' = desc \<and> readerAt' = readerAt \<and> resp' = resp \<and>
             req = \<lparr> Request_Method = ''PUT'', Request_URL = URL urlResp, Request_Body = readerAt,
                     Request_ContentLength = ReaderAt_Size readerAt \<rparr>
          then Some (StatusCode resp = 200, rest) else None
      | _ \<Rightarrow> None)"

text \<open>
  The uploads of the layers of a list, one after the other, up to the first layer that
  was not uploaded: whether all the layers were uploaded, and the events that follow.
\<close>

fun read_uploads :: "Provider \<Rightarrow> Descriptor list \<Rightarrow> event list \<Rightarrow> (bool \<times> event list) option" where
  "read_uploads provider [] evs = Some (True, evs)"
| "read_uploads provider (desc # descs) evs =
     (case read_upload provider desc evs of
        None \<Rightarrow> None
      | Some (False, rest) \<Rightarrow> Some (False, rest)
      | Some (True, rest) \<Rightarrow> read_uploads provider descs rest)"

text \<open>
  What a trace shows of one requested record. The record is skipped when its ref was not
  found or gave no remote; its upload failed when the remotes could not be obtained or a
  layer of the first remote was not uploaded; it is uploaded when every layer of the
  first remote was uploaded, and then it has the \<open>RecordLayers\<close> to report. A ref that
  was found is released after the last event of its record.
\<close>

datatype seen = SeenSkipped | SeenFailed | SeenUploaded RecordLayers

definition read_record :: "Record \<Rightarrow> event list \<Rightarrow> (seen \<times> event list) option" where
  "read_record record evs =
     (case evs of
        EvGet k (Inl err) # rest \<Rightarrow>
          if k = Record_CacheRefID record then Some (SeenSkipped, rest) else None
      | EvGet k (Inr cacheRef) # EvGetRemotes cacheRef' (Inl err) # EvRefRelease cacheRef'' # rest \<Rightarrow>
          if k = Record_CacheRefID record \<and> cacheRef' = cacheRef \<and> cacheRef'' = cacheRef
          then Some (SeenFailed, rest) else None
      | EvGet k (Inr cacheRef) # EvGetRemotes cacheRef' (Inr []) # EvRefRelease cacheRef'' # rest \<Rightarrow>
          if k = Record_CacheRefID record \<and> cacheRef' = cacheRef \<and> cacheRef'' = cacheRef
          then Some (SeenSkipped, rest) else None
      | EvGet k (Inr cacheRef) # EvGetRemotes cacheRef' (Inr (remote # remotes)) # evs' \<Rightarrow>
          (case read_uploads (Remote_Provider remote) (Remote_Descriptors remote) evs' of
             Some (ok, EvRefRelease cacheRef'' # rest) \<Rightarrow>
               if k = Record_CacheRefID record \<and> cacheRef' = cacheRef \<and> cacheRef'' = cacheRef
               then Some (if ok
                          then SeenUploaded \<lparr> RecordLayers_RecordDigest = Record_Digest record,
                                              RecordLayers_Layers = Remote_Descriptors remote \<rparr>
                          else SeenFailed, rest)
               else None
           | _ \<Rightarrow> None)
      | _ \<Rightarrow> None)"

text \<open>
  The requested records, one after the other, up to the first record whose upload
  failed: the events are those of these records and no other.
\<close>

fun read_records :: "Record list \<Rightarrow> event list \<Rightarrow> seen list option" where
  "read_records [] evs = (if evs = [] then Some [] else None)"
| "read_records (record # records) evs =
     (case read_record record evs of
        None \<Rightarrow> None
      | Some (SeenFailed, rest) \<Rightarrow> if rest = [] then Some [SeenFailed] else None
      | Some (seen, rest) \<Rightarrow> map_option ((#) seen) (read_records records rest))"

text \<open>The \<open>RecordLayers\<close> of the records that were uploaded.\<close>

fun reported :: "seen list \<Rightarrow> RecordLayers list" where
  "reported [] = []"
| "reported (SeenUploaded recordLayers # seens) = recordLayers # reported seens"
| "reported (seen # seens) = reported seens"

subsection \<open>Example collaborators\<close>

text \<open>
  \<open>time.Time.MarshalText\<close> as the Go library documents it: an error when the year is
  outside of the range 0 to 9999, the RFC 3339 text (the parameter \<open>format\<close>) otherwise.
  Year 0 begins 31622400 seconds before year 1, year 10000 begins 315537897600 seconds
  after it.
\<close>

definition Go_MarshalText :: "(Time \<Rightarrow> string) \<Rightarrow> Time \<Rightarrow> error + string" where
  "Go_MarshalText format t =
     (if sec t < - 31622400 \<or> 315537897600 \<le> sec t
      then Inl (Error ''Time.MarshalText: year outside of range [0,9999]'')
      else Inr (format t))"

definition example_MarshalText :: "Time \<Rightarrow> error + string" where
  "example_MarshalText = Go_MarshalText (\<lambda>t. ''2024-03-01T00:00:00Z'')"

text \<open>
  Collaborators for the concrete runs below. The world is the number of calls made so
  far. The key store holds the keys \<open>k1\<close> and \<open>k2\<close>, with a link from \<open>k2\<close> to \<open>k1\<close>;
  the result of \<open>k2\<close> is pruned and does not load. The worker has every ref but
  \<open>pruned\<close>; the ref \<open>empty\<close> has no remotes; the second layer of the ref \<open>broken\<close> has the
  digest \<open>sha256:bad\<close>, whose upload the HTTP server answers with status 500.
\<close>

definition example_Time :: Time where
  "example_Time = \<lparr> sec = 63845000000, nsec = 0 \<rparr>"

definition example_Descriptor :: "digest \<Rightarrow> Descriptor" where
  "example_Descriptor dgst =
     \<lparr> Descriptor_MediaType = ''application/vnd.oci.image.layer.v1.tar+zstd'',
       Descriptor_Digest = dgst, Descriptor_Size = 1024, Descriptor_Annotations = Map.empty \<rparr>"

definition example_KeyStore :: KeyStore where
  "example_KeyStore =
     \<lparr> Walk = ([''k1'', ''k2''], None),
       WalkBacklinks = (\<lambda>k. if k = ''k2''
          then ([(''k1'', \<lparr> CacheInfoLink_Input = 0, CacheInfoLink_Output = 0,
                           CacheInfoLink_Digest = ''sha256:op'', CacheInfoLink_Selector = '''' \<rparr>)], None)
          else ([], None)),
       WalkResults = (\<lambda>k. if k = ''k1''
          then ([\<lparr> CacheResult_CreatedAt = example_Time, CacheResult_ID = ''r1'' \<rparr>], None)
          else if k = ''k2''
          then ([\<lparr> CacheResult_CreatedAt = example_Time, CacheResult_ID = ''pruned'' \<rparr>], None)
          else ([], None)) \<rparr>"

definition example_ResultStore :: "nat ResultStore" where
  "example_ResultStore =
     \<lparr> ResultStore_Load = (\<lambda>cacheResult w.
         (if CacheResult_ID cacheResult = ''pruned'' then Inl (Error ''not found'')
          else Inr \<lparr> SolverResult_ID = CacheResult_ID cacheResult,
                     SolverResult_Sys = WorkerRef \<lparr> ImmutableRef_ID = CacheResult_ID cacheResult,
                                                    ImmutableRef_Description = ''layer'' \<rparr> \<rparr>,
          Suc w)) \<rparr>"

definition example_Worker :: "nat Worker" where
  "example_Worker =
     \<lparr> Worker_Get = (\<lambda>k w.
         (if k = ''pruned'' then Inl (Error ''not found'')
          else Inr \<lparr> ImmutableRef_ID = k, ImmutableRef_Description = ''layer'' \<rparr>,
          Suc w)) \<rparr>"

definition example_ManagerConfig :: "string \<Rightarrow> nat ManagerConfig" where
  "example_ManagerConfig url =
     \<lparr> ManagerConfig_KeyStore = example_KeyStore,
       ManagerConfig_ResultStore = example_ResultStore,
       ManagerConfig_Worker = example_Worker,
       ServiceURL = url, EngineID = ''engine-1'' \<rparr>"

text \<open>
  The service answers \<open>GetConfig\<close> with \<open>config\<close>, \<open>ImportCache\<close> with \<open>layers\<close>,
  \<open>UpdateCacheRecords\<close> with \<open>records\<close> and \<open>UpdateCacheLayers\<close> with \<open>commit\<close>.
\<close>

definition example_Service ::
  "Config \<Rightarrow> CacheLayer list \<Rightarrow> Record list \<Rightarrow> error option \<Rightarrow> nat Service" where
  "example_Service config layers records commit =
     \<lparr> GetConfig = (\<lambda>req w. (Inr config, Suc w)),
       ImportCache = (\<lambda>w. (Inr \<lparr> CacheConfig_Layers = layers, CacheConfig_Records = [] \<rparr>, Suc w)),
       UpdateCacheRecords = (\<lambda>req w. (Inr \<lparr> ExportRecords = records \<rparr>, Suc w)),
       UpdateCacheLayers = (\<lambda>req w. (commit, Suc w)),
       GetLayerUploadURL = (\<lambda>req w.
         (Inr \<lparr> URL = ''https://cache/'' @ GetLayerUploadURLRequest_Digest req \<rparr>, Suc w)) \<rparr>"

definition example_lib :: "nat Service \<Rightarrow> (nat, unit, unit, unit) lib" where
  "example_lib service =
     \<lparr> newClient = (\<lambda>url. Inr service),
       Result_Release = (\<lambda>res w. Suc w),
       ImmutableRef_Release = (\<lambda>ref w. Suc w),
       ImmutableRef_GetRemotes = (\<lambda>ref all comp create w.
         (if ImmutableRef_ID ref = ''empty'' then Inr []
          else if ImmutableRef_ID ref = ''broken''
          then Inr [\<lparr> Remote_Descriptors = [example_Descriptor ''sha256:l1'', example_Descriptor ''sha256:bad''],
                      Remote_Provider = RemoteProvider 0 \<rparr>]
          else Inr [\<lparr> Remote_Descriptors = [example_Descriptor ''sha256:l1'', example_Descriptor ''sha256:l2''],
                      Remote_Provider = RemoteProvider 0 \<rparr>],
          Suc w)),
       Provider_ReaderAt = (\<lambda>provider desc w. (Inr \<lparr> ReaderAt_Size = Descriptor_Size desc \<rparr>, Suc w)),
       ReaderAt_Close = (\<lambda>readerAt w. Suc w),
       http_NewRequest = (\<lambda>verb url. None),
       httpClient_Do = (\<lambda>req w.
         (Inr \<lparr> StatusCode = (if Request_URL req = ''https://cache/sha256:bad'' then 500 else 200) \<rparr>,
          Suc w)),
       Body_Close = (\<lambda>resp w. Suc w),
       Time_MarshalText = example_MarshalText,
       remotecache_ParseConfig = (\<lambda>cacheConfig descProvider. Inr ()),
       remotecache_NewCacheKeyStorage = (\<lambda>chain worker.
         Inr (\<lparr> Walk = ([], None), WalkBacklinks = (\<lambda>k. ([], None)), WalkResults = (\<lambda>k. ([], None)) \<rparr>,
              example_ResultStore)),
       CacheManager_call = (\<lambda>cm c arg w. ((), Suc w)) \<rparr>"

definition example_Config :: Config where
  "example_Config = \<lparr> ImportPeriod = 60000000000, ExportPeriod = 300000000000,
                      ExportTimeout = 600000000000 \<rparr>"

definition example_manager :: "nat Service \<Rightarrow> nat manager" where
  "example_manager service =
     \<lparr> ManagerConfig = example_ManagerConfig ''https://cache'',
       cacheClient = service,
       runtimeConfig = example_Config,
       localCache = NewCacheManager ''local'' example_KeyStore example_ResultStore,
       inner = None,
       startCloseCh = Open,
       doneCh = Open,
       stopCacheMountSync = None \<rparr>"

definition example_state :: "nat state" where
  "example_state = \<lparr> world = 0, trace = [] \<rparr>"

text \<open>
  An advertised layer with the blob \<open>sha256:b1\<close>, created at \<open>t\<close>, with the diff ID
  \<open>diffID\<close>.
\<close>

definition example_layer :: "Time \<Rightarrow> digest \<Rightarrow> CacheLayer" where
  "example_layer t diffID =
     \<lparr> CacheLayer_Blob = ''sha256:b1'',
       CacheLayer_Annotations =
         Some \<lparr> LayerAnnotations_MediaType = ''application/vnd.oci.image.layer.v1.tar+zstd'',
                LayerAnnotations_DiffID = diffID,
                LayerAnnotations_Size = 1024,
                LayerAnnotations_CreatedAt = t \<rparr> \<rparr>"

text \<open>The records that the service asks for in the concrete runs.\<close>

definition example_Record :: "string \<Rightarrow> Record" where
  "example_Record k = \<lparr> Record_CacheRefID = k, Record_Digest = ''sha256:record-'' @ k \<rparr>"

text \<open>
  Two services for the runs of \<open>Export\<close>: one asks for the records \<open>pruned\<close>, \<open>r1\<close> and
  \<open>empty\<close>, the other for \<open>pruned\<close> and \<open>empty\<close> only; \<open>commit\<close> is what
  \<open>UpdateCacheLayers\<close> returns. A third service advertises the layers \<open>layers\<close> and
  configures the periods \<open>config\<close>.
\<close>

definition upload_Service :: "error option \<Rightarrow> nat Service" where
  "upload_Service commit =
     example_Service example_Config []
       [example_Record ''pruned'', example_Record ''r1'', example_Record ''empty''] commit"

definition skipping_Service :: "error option \<Rightarrow> nat Service" where
  "skipping_Service commit =
     example_Service example_Config [] [example_Record ''pruned'', example_Record ''empty''] commit"

definition import_Service :: "Config \<Rightarrow> CacheLayer list \<Rightarrow> nat Service" where
  "import_Service config layers = example_Service config layers [] None"

text \<open>
  What the walk of \<open>example_KeyStore\<close> emits, the state it leaves when it starts in
  \<open>example_state\<close>, and the state after the call of \<open>UpdateCacheRecords\<close> that follows.
\<close>

definition example_CacheKeys :: "CacheKey list" where
  "example_CacheKeys =
     [\<lparr> CacheKey_ID = ''k1'',
        CacheKey_Results = [\<lparr> Result_ID = ''r1'', Result_CreatedAt = example_Time,
                              Result_Description = ''layer'' \<rparr>] \<rparr>,
      \<lparr> CacheKey_ID = ''k2'', CacheKey_Results = [] \<rparr>]"

definition example_Links :: "Link list" where
  "example_Links =
     [\<lparr> Link_ID = ''k2'', Link_LinkedID = ''k1'', Link_Input = 0,
        Link_Digest = ''sha256:op'', Link_Selector = '''' \<rparr>]"

definition example_walk_events :: "event list" where
  "example_walk_events =
     [EvLoad \<lparr> CacheResult_CreatedAt = example_Time, CacheResult_ID = ''r1'' \<rparr>
        (Inr \<lparr> SolverResult_ID = ''r1'',
               SolverResult_Sys = WorkerRef \<lparr> ImmutableRef_ID = ''r1'',
                                              ImmutableRef_Description = ''layer'' \<rparr> \<rparr>),
      EvResultRelease
        \<lparr> SolverResult_ID = ''r1'',
          SolverResult_Sys = WorkerRef \<lparr> ImmutableRef_ID = ''r1'',
                                         ImmutableRef_Description = ''layer'' \<rparr> \<rparr>,
      EvLoad \<lparr> CacheResult_CreatedAt = example_Time, CacheResult_ID = ''pruned'' \<rparr>
        (Inl (Error ''not found''))]"

definition example_walked :: "nat state" where
  "example_walked = \<lparr> world = 3, trace = example_walk_events \<rparr>"

definition example_announced :: "nat state" where
  "example_announced =
     \<lparr> world = 4,
       trace = example_walk_events @
         [EvUpdateCacheRecords \<lparr> CacheKeys = example_CacheKeys, Links = example_Links \<rparr>] \<rparr>"

text \<open>
  The manager that \<open>NewManager\<close> returns when the service advertises no layer, and the
  state in which it returns it.
\<close>

definition example_started :: "nat manager" where
  "example_started =
     (example_manager (import_Service example_Config []))
       \<lparr> inner := Some (NewCombinedCacheManager
                         [NewCacheManager ''enginecache''
                            \<lparr> Walk = ([], None), WalkBacklinks = (\<lambda>k. ([], None)),
                              WalkResults = (\<lambda>k. ([], None)) \<rparr>
                            example_ResultStore]
                         (NewCacheManager ''local'' example_KeyStore example_ResultStore)) \<rparr>"

definition example_started_state :: "nat state" where
  "example_started_state =
     \<lparr> world = 2,
       trace = [EvGetConfig \<lparr> GetConfigRequest_EngineID = ''engine-1'' \<rparr>, EvImportCache,
                EvGo CancelImportOnClose, EvGo (ImportLoop 60000000000),
                EvGo (ExportLoop 300000000000 600000000000)] \<rparr>"



text \<open>
  A service that asks for the records \<open>r1\<close> and \<open>broken\<close>, and the \<open>RecordLayers\<close> of
  the record \<open>r1\<close>.
\<close>

definition broken_Service :: "error option \<Rightarrow> nat Service" where
  "broken_Service commit =
     example_Service example_Config [] [example_Record ''r1'', example_Record ''broken''] commit"

definition example_RecordLayers :: RecordLayers where
  "example_RecordLayers =
     \<lparr> RecordLayers_RecordDigest = ''sha256:record-r1'',
       RecordLayers_Layers = [example_Descriptor ''sha256:l1'', example_Descriptor ''sha256:l2''] \<rparr>"

section \<open>Lemmas\<close>

subsection \<open>Traces\<close>

lemma commits_append: "commits (xs @ ys) = commits xs @ commits ys"
  by (induction xs rule: commits.induct) auto

lemma announces_append: "announces (xs @ ys) = announces xs @ announces ys"
  by (induction xs rule: announces.induct) auto

lemma uploads_append: "uploads (xs @ ys) = uploads xs @ uploads ys"
  by (induction xs rule: uploads.induct) auto

lemma goroutines_append: "goroutines (xs @ ys) = goroutines xs @ goroutines ys"
  by (induction xs rule: goroutines.induct) auto

lemma extends_refl: "extends P s s"
  by (simp add: extends_def)

lemma extends_trans: "extends P s s1 \<Longrightarrow> extends P s1 s2 \<Longrightarrow> extends P s s2"
  by (auto simp: extends_def)

lemma extends_call: "call ev f s = (r, s') \<Longrightarrow> P (ev r) \<Longrightarrow> extends P s s'"
  by (auto simp: call_def extends_def split: prod.splits)

lemma extends_perform: "extends P s s1 \<Longrightarrow> P e \<Longrightarrow> extends P s (perform e f s1)"
  by (auto simp: perform_def extends_def)

lemma extends_for_range:
  assumes "\<And>x v r v'. body x v = (r, v') \<Longrightarrow> extends P (st v) (st v')"
  shows "for_range body xs v = (r, v') \<Longrightarrow> extends P (st v) (st v')"
proof (induction xs arbitrary: v)
  case Nil
  then show ?case by (simp add: extends_refl)
next
  case (Cons x xs)
  obtain r1 v1 where b: "body x v = (r1, v1)" by (cases "body x v")
  show ?case
  proof (cases r1)
    case None
    with b Cons.prems have "for_range body xs v1 = (r, v')" by simp
    with Cons.IH have "extends P (st v1) (st v')" .
    with assms[OF b] show ?thesis by (rule extends_trans)
  next
    case (Some e)
    with b Cons.prems have "v' = v1" by simp
    with assms[OF b] show ?thesis by simp
  qed
qed

lemma walk_event_no_commit:
  "list_all walk_event evs \<Longrightarrow> commits evs = [] \<and> announces evs = [] \<and> uploads evs = [] \<and> goroutines evs = []"
  by (induction evs) (auto elim: walk_event.elims)

lemma upload_event_no_commit:
  "list_all upload_event evs \<Longrightarrow> commits evs = [] \<and> announces evs = [] \<and> goroutines evs = []"
  by (induction evs) (auto elim: upload_event.elims)

lemma pushLayer_extends:
  "pushLayer lib m layerDesc provider s = (r, s') \<Longrightarrow> extends upload_event s s'"
  by (auto simp: pushLayer_def Let_def call_def perform_def extends_def
           split: prod.splits sum.splits option.splits if_splits)

lemma pushLayers_extends:
  "for_range (\<lambda>layer. pushLayer lib m layer provider) layers s = (r, s') \<Longrightarrow> extends upload_event s s'"
  using extends_for_range[where st = "\<lambda>s. s" and body = "\<lambda>layer. pushLayer lib m layer provider"]
  by (metis pushLayer_extends)

lemma phase3_record_extends:
  "phase3_record lib m record s = (outcome, s') \<Longrightarrow> extends upload_event s s'"
  unfolding phase3_record_def
  by (auto split: prod.splits sum.splits list.splits option.splits
           dest!: pushLayers_extends extends_call[where P = upload_event]
           intro!: extends_perform
           intro: extends_trans)

text \<open>The loop body of the source against the outcome of the record.\<close>

lemma Export_record_outcome:
  "Export_record lib m record (updatedRecords, s) =
     (case phase3_record lib m record s of
        (Skipped, s') \<Rightarrow> (None, updatedRecords, s')
      | (Failed err, s') \<Rightarrow> (Some err, updatedRecords, s')
      | (Uploaded recordLayers, s') \<Rightarrow> (None, updatedRecords @ [recordLayers], s'))"
  by (simp add: Export_record_def phase3_record_def
           split: prod.splits sum.splits list.splits option.splits)

lemma Export_records_outcomes:
  "for_range (Export_record lib m) records (updatedRecords, s) = (r, updatedRecords', s') \<Longrightarrow>
     extends upload_event s s' \<and>
     (case r of
        None \<Rightarrow> failures (phase3 lib m records s) = [] \<and>
                updatedRecords' = updatedRecords @ uploaded (phase3 lib m records s)
      | Some err \<Rightarrow> failures (phase3 lib m records s) = [err])"
proof (induction records arbitrary: updatedRecords s)
  case Nil
  then show ?case by (auto simp: extends_refl)
next
  case (Cons rcd records)
  obtain outcome s1 where o: "phase3_record lib m rcd s = (outcome, s1)"
    by (cases "phase3_record lib m rcd s")
  then have e1: "extends upload_event s s1" by (rule phase3_record_extends)
  show ?case
  proof (cases outcome)
    case Skipped
    with o Cons.prems have "for_range (Export_record lib m) records (updatedRecords, s1) = (r, updatedRecords', s')"
      by (simp add: Export_record_outcome)
    from Cons.IH[OF this] e1 o Skipped show ?thesis
      by (auto intro: extends_trans split: option.splits)
  next
    case (Failed err)
    with o Cons.prems e1 show ?thesis
      by (auto simp: Export_record_outcome)
  next
    case (Uploaded recordLayers)
    with o Cons.prems have "for_range (Export_record lib m) records (updatedRecords @ [recordLayers], s1) = (r, updatedRecords', s')"
      by (simp add: Export_record_outcome)
    from Cons.IH[OF this] e1 o Uploaded show ?thesis
      by (auto intro: extends_trans split: option.splits)
  qed
qed

subsection \<open>The walk of the key store\<close>

lemma WalkBacklinks_loop:
  "for_range (WalkBacklinks_fn k) items links = (None, links @ map (flatten k) items)"
  by (induction items arbitrary: links)
     (auto simp: WalkBacklinks_fn_def flatten_def Let_def)

text \<open>One result: the three ways through the callback.\<close>

lemma WalkResults_fn_cases:
  assumes "WalkResults_fn lib m k cacheResult (cacheKey, s) = (r, cacheKey', s')"
  shows "r = None \<and>
         (\<exists>evs results. trace s' = trace s @ evs \<and> list_all walk_event evs \<and>
            cacheKey' = cacheKey\<lparr>CacheKey_Results := CacheKey_Results cacheKey @ results\<rparr> \<and>
            (\<forall>rest. read_result cacheResult (evs @ rest) = Some (results, rest)))"
proof (cases "ResultStore_Load (ManagerConfig_ResultStore (ManagerConfig m)) cacheResult (world s)")
  case (Pair rl w1)
  show ?thesis
  proof (cases rl)
    case (Inl err)
    with Pair assms have "r = None" "cacheKey' = cacheKey" "trace s' = trace s @ [EvLoad cacheResult (Inl err)]"
      by (auto simp: WalkResults_fn_def call_def)
    then show ?thesis
      by (intro conjI exI[of _ "[EvLoad cacheResult (Inl err)]"] exI[of _ "[]"])
         (simp_all add: read_result_def)
  next
    case (Inr res)
    show ?thesis
    proof (cases "SolverResult_Sys res")
      case OtherSys
      with Inr Pair assms have "r = None" "cacheKey' = cacheKey"
        "trace s' = trace s @ [EvLoad cacheResult (Inr res), EvResultRelease res]"
        by (auto simp: WalkResults_fn_def call_def perform_def)
      with OtherSys show ?thesis
        by (intro conjI exI[of _ "[EvLoad cacheResult (Inr res), EvResultRelease res]"] exI[of _ "[]"])
           (simp_all add: read_result_def)
    next
      case (WorkerRef cacheRef)
      let ?result = "\<lparr> Result_ID = ImmutableRef_ID cacheRef,
                        Result_CreatedAt = CacheResult_CreatedAt cacheResult,
                        Result_Description = ImmutableRef_Description cacheRef \<rparr>"
      from WorkerRef Inr Pair assms have "r = None"
        "cacheKey' = cacheKey\<lparr>CacheKey_Results := CacheKey_Results cacheKey @ [?result]\<rparr>"
        "trace s' = trace s @ [EvLoad cacheResult (Inr res), EvResultRelease res]"
        by (auto simp: WalkResults_fn_def call_def perform_def)
      with WorkerRef show ?thesis
        by (intro conjI exI[of _ "[EvLoad cacheResult (Inr res), EvResultRelease res]"] exI[of _ "[?result]"])
           (simp_all add: read_result_def)
    qed
  qed
qed

lemma WalkResults_loop:
  "for_range (WalkResults_fn lib m k) cacheResults (cacheKey, s) = (r, cacheKey', s') \<Longrightarrow>
     r = None \<and>
     (\<exists>evs results. trace s' = trace s @ evs \<and> list_all walk_event evs \<and>
        cacheKey' = cacheKey\<lparr>CacheKey_Results := CacheKey_Results cacheKey @ results\<rparr> \<and>
        (\<forall>rest. read_results cacheResults (evs @ rest) = Some (results, rest)))"
proof (induction cacheResults arbitrary: cacheKey s)
  case Nil
  then show ?case by (intro conjI exI[of _ "[]"]) simp_all
next
  case (Cons cacheResult cacheResults)
  obtain r1 ck1 s1 where b: "WalkResults_fn lib m k cacheResult (cacheKey, s) = (r1, ck1, s1)"
    by (cases "WalkResults_fn lib m k cacheResult (cacheKey, s)")
  from WalkResults_fn_cases[OF b] obtain evs1 rs1 where
    r1: "r1 = None" and
    t1: "trace s1 = trace s @ evs1" and w1: "list_all walk_event evs1" and
    k1: "ck1 = cacheKey\<lparr>CacheKey_Results := CacheKey_Results cacheKey @ rs1\<rparr>" and
    u1: "\<And>rest. read_result cacheResult (evs1 @ rest) = Some (rs1, rest)"
    by blast
  from b r1 Cons.prems have "for_range (WalkResults_fn lib m k) cacheResults (ck1, s1) = (r, cacheKey', s')"
    by simp
  from Cons.IH[OF this] obtain evs2 rs2 where
    r2: "r = None" and
    t2: "trace s' = trace s1 @ evs2" and w2: "list_all walk_event evs2" and
    k2: "cacheKey' = ck1\<lparr>CacheKey_Results := CacheKey_Results ck1 @ rs2\<rparr>" and
    u2: "\<And>rest. read_results cacheResults (evs2 @ rest) = Some (rs2, rest)"
    by blast
  have A: "trace s' = trace s @ (evs1 @ evs2)" using t1 t2 by simp
  have B: "list_all walk_event (evs1 @ evs2)" using w1 w2 by simp
  have C: "cacheKey' = cacheKey\<lparr>CacheKey_Results := CacheKey_Results cacheKey @ (rs1 @ rs2)\<rparr>"
    using k1 k2 by simp
  have D: "\<forall>rest. read_results (cacheResult # cacheResults) ((evs1 @ evs2) @ rest) = Some (rs1 @ rs2, rest)"
    using u1 u2 by simp
  show ?case
    apply (intro conjI)
     apply (rule r2)
    apply (rule exI[of _ "evs1 @ evs2"])
    apply (rule exI[of _ "rs1 @ rs2"])
    apply (intro conjI)
       apply (rule A)
      apply (rule B)
     apply (rule C)
    apply (rule D)
    done
qed

lemma extends_append: "trace s' = trace s @ evs \<Longrightarrow> list_all P evs \<Longrightarrow> extends P s s'"
  by (auto simp: extends_def)

lemma WalkResults_walk:
  assumes "walk store (WalkResults_fn lib m k) (cacheKey, s) = (r, cacheKey', s')"
  shows "r = snd store \<and>
     (\<exists>evs results. trace s' = trace s @ evs \<and> list_all walk_event evs \<and>
        cacheKey' = cacheKey\<lparr>CacheKey_Results := CacheKey_Results cacheKey @ results\<rparr> \<and>
        (\<forall>rest. read_results (fst store) (evs @ rest) = Some (results, rest)))"
proof -
  obtain r1 ck1 s1 where l: "for_range (WalkResults_fn lib m k) (fst store) (cacheKey, s) = (r1, ck1, s1)"
    by (cases "for_range (WalkResults_fn lib m k) (fst store) (cacheKey, s)")
  from WalkResults_loop[OF l] have r1: "r1 = None" by simp
  with l assms have "r = snd store" "cacheKey' = ck1" "s' = s1" by (auto simp: walk_def)
  with WalkResults_loop[OF l] show ?thesis by simp
qed

text \<open>
  One key: the callback returns an error exactly when one of the two inner walks of the
  store reports one.
\<close>

lemma Walk_fn_cases:
  assumes "Walk_fn lib m k (cacheKeys, links, s) = (r, cacheKeys', links', s')"
  shows "extends walk_event s s' \<and>
         (snd (WalkBacklinks (ManagerConfig_KeyStore (ManagerConfig m)) k) = None \<longrightarrow>
          snd (WalkResults (ManagerConfig_KeyStore (ManagerConfig m)) k) = None \<longrightarrow>
            r = None \<and>
            links' = links @ map (flatten k) (fst (WalkBacklinks (ManagerConfig_KeyStore (ManagerConfig m)) k)) \<and>
            (\<exists>results evs.
               cacheKeys' = cacheKeys @ [\<lparr> CacheKey_ID = k, CacheKey_Results = results \<rparr>] \<and>
               trace s' = trace s @ evs \<and>
               (\<forall>rest. read_results (fst (WalkResults (ManagerConfig_KeyStore (ManagerConfig m)) k))
                         (evs @ rest) = Some (results, rest)))) \<and>
         (snd (WalkBacklinks (ManagerConfig_KeyStore (ManagerConfig m)) k) \<noteq> None \<or>
          snd (WalkResults (ManagerConfig_KeyStore (ManagerConfig m)) k) \<noteq> None \<longrightarrow> r \<noteq> None)"
proof -
  let ?ks = "ManagerConfig_KeyStore (ManagerConfig m)"
  let ?ck = "\<lparr> CacheKey_ID = k, CacheKey_Results = [] \<rparr>"
  have bl: "walk (WalkBacklinks ?ks k) (WalkBacklinks_fn k) links =
              (snd (WalkBacklinks ?ks k), links @ map (flatten k) (fst (WalkBacklinks ?ks k)))"
    by (simp add: walk_def WalkBacklinks_loop)
  show ?thesis
  proof (cases "snd (WalkBacklinks ?ks k)")
    case (Some err)
    with bl assms have "s' = s" "r = Some err" by (simp_all add: Walk_fn_def)
    with Some show ?thesis by (simp add: extends_refl)
  next
    case None
    obtain r2 ck2 s2 where w: "walk (WalkResults ?ks k) (WalkResults_fn lib m k) (?ck, s) = (r2, ck2, s2)"
      by (cases "walk (WalkResults ?ks k) (WalkResults_fn lib m k) (?ck, s)")
    from WalkResults_walk[OF w] obtain evs rs where
      r2: "r2 = snd (WalkResults ?ks k)" and
      t2: "trace s2 = trace s @ evs" and w2: "list_all walk_event evs" and
      k2: "ck2 = \<lparr> CacheKey_ID = k, CacheKey_Results = rs \<rparr>" and
      u2: "\<forall>rest. read_results (fst (WalkResults ?ks k)) (evs @ rest) = Some (rs, rest)"
      by auto
    from bl None w assms have s': "s' = s2" and links': "links' = links @ map (flatten k) (fst (WalkBacklinks ?ks k))"
      by (auto simp: Walk_fn_def Let_def split: option.splits)
    have ext: "extends walk_event s s'" using s' t2 w2 by (auto intro: extends_append)
    show ?thesis
    proof (cases "snd (WalkResults ?ks k)")
      case (Some err)
      with bl None w r2 assms have "r = Some err" by (auto simp: Walk_fn_def Let_def)
      with ext Some show ?thesis by simp
    next
      case N2: None
      with bl None w r2 assms have r: "r = None" and c: "cacheKeys' = cacheKeys @ [ck2]"
        by (auto simp: Walk_fn_def Let_def)
      have E: "\<exists>results evs.
               cacheKeys' = cacheKeys @ [\<lparr> CacheKey_ID = k, CacheKey_Results = results \<rparr>] \<and>
               trace s' = trace s @ evs \<and>
               (\<forall>rest. read_results (fst (WalkResults ?ks k)) (evs @ rest) = Some (results, rest))"
        apply (rule exI[of _ rs])
        apply (rule exI[of _ evs])
        using c k2 s' t2 u2 apply simp
        done
      from ext r links' E None N2 show ?thesis by simp
    qed
  qed
qed

lemma Walk_loop_extends:
  "for_range (Walk_fn lib m) ks (cacheKeys, links, s) = (r, cacheKeys', links', s') \<Longrightarrow>
     extends walk_event s s'"
  using extends_for_range[where st = "\<lambda>(cacheKeys, links, s). s" and body = "Walk_fn lib m"
          and P = walk_event and xs = ks and v = "(cacheKeys, links, s)" and v' = "(cacheKeys', links', s')" and r = r]
  by (auto dest: Walk_fn_cases)

lemma walk_extends:
  "walk store (Walk_fn lib m) (cacheKeys, links, s) = (r, cacheKeys', links', s') \<Longrightarrow>
     extends walk_event s s'"
  by (auto simp: walk_def split: prod.splits option.splits dest: Walk_loop_extends)





subsection \<open>Export after the walk\<close>

lemma extends_commits:
  "extends walk_event s s' \<Longrightarrow>
     commits (trace s') = commits (trace s) \<and> uploads (trace s') = uploads (trace s) \<and>
     announces (trace s') = announces (trace s)"
  by (auto simp: extends_def commits_append uploads_append announces_append dest: walk_event_no_commit)

lemma extends_upload_commits:
  "extends upload_event s s' \<Longrightarrow>
     commits (trace s') = commits (trace s) \<and> announces (trace s') = announces (trace s)"
  by (auto simp: extends_def commits_append announces_append dest: upload_event_no_commit)

lemma all_skipped: "\<forall>outcome \<in> set outcomes. outcome = Skipped \<Longrightarrow> uploaded outcomes = [] \<and> failures outcomes = []"
  by (induction outcomes) auto

text \<open>Export, from the answer of UpdateCacheRecords on.\<close>

lemma Export_after_announce:
  assumes "walk (Walk (ManagerConfig_KeyStore (ManagerConfig m))) (Walk_fn lib m) ([], [], s) = (None, cacheKeys, links, s1)"
      and "call (\<lambda>_. EvUpdateCacheRecords \<lparr> CacheKeys = cacheKeys, Links = links \<rparr>)
             (UpdateCacheRecords (cacheClient m) \<lparr> CacheKeys = cacheKeys, Links = links \<rparr>) s1 = (Inr resp, s2)"
      and "Export lib m s = (r, s')"
      and "for_range (Export_record lib m) (ExportRecords resp) ([], s2) = (r3, updatedRecords, s3)"
  shows "(ExportRecords resp = [] \<longrightarrow> r = None \<and> s' = s2) \<and>
         (ExportRecords resp \<noteq> [] \<longrightarrow>
            (case r3 of
               Some err \<Rightarrow> r = Some err \<and> s' = s3
             | None \<Rightarrow> (r, s') = call (\<lambda>_. EvUpdateCacheLayers \<lparr> UpdatedRecords = updatedRecords \<rparr>)
                                    (UpdateCacheLayers (cacheClient m) \<lparr> UpdatedRecords = updatedRecords \<rparr>) s3))"
  using assms by (auto simp: Export_def Let_def split: option.splits)

lemma call_commit:
  "(r, s') = call (\<lambda>_. EvUpdateCacheLayers req) f s3 \<Longrightarrow>
     trace s' = trace s3 @ [EvUpdateCacheLayers req] \<and> (r, world s') = f (world s3)"
  by (auto simp: call_def split: prod.splits)

subsection \<open>The uploads of the third phase\<close>

lemma pushLayer_reads:
  "pushLayer lib m desc provider s = (r, s') \<Longrightarrow>
     \<exists>evs. trace s' = trace s @ evs \<and>
           (\<forall>rest. read_upload provider desc (evs @ rest) = Some (r = None, rest))"
  by (auto simp: pushLayer_def read_upload_def Let_def call_def perform_def StatusOK_def
           split: prod.splits sum.splits option.splits if_splits)
     (metis option.distinct(1))

lemma pushLayers_reads:
  "for_range (\<lambda>layer. pushLayer lib m layer provider) descs s = (r, s') \<Longrightarrow>
     \<exists>evs. trace s' = trace s @ evs \<and>
           (\<forall>rest. read_uploads provider descs (evs @ rest) = Some (r = None, rest))"
proof (induction descs arbitrary: s)
  case Nil
  then show ?case by simp
next
  case (Cons desc descs)
  obtain r1 s1 where b: "pushLayer lib m desc provider s = (r1, s1)"
    by (cases "pushLayer lib m desc provider s")
  from pushLayer_reads[OF b] obtain evs1 where
    t1: "trace s1 = trace s @ evs1" and
    u1: "\<And>rest. read_upload provider desc (evs1 @ rest) = Some (r1 = None, rest)"
    by blast
  show ?case
  proof (cases r1)
    case (Some err)
    with b Cons.prems have "r = Some err" "s' = s1" by simp_all
    with t1 u1 Some show ?thesis by (intro exI[of _ evs1]) simp
  next
    case None
    with b Cons.prems have "for_range (\<lambda>layer. pushLayer lib m layer provider) descs s1 = (r, s')"
      by simp
    from Cons.IH[OF this] obtain evs2 where
      t2: "trace s' = trace s1 @ evs2" and
      u2: "\<And>rest. read_uploads provider descs (evs2 @ rest) = Some (r = None, rest)"
      by blast
    from t1 t2 u1 u2 None show ?thesis by (intro exI[of _ "evs1 @ evs2"]) simp
  qed
qed

lemma Export_record_reads:
  assumes "Export_record lib m rcd (updatedRecords, s) = (r, updatedRecords', s')"
  shows "\<exists>evs seen. trace s' = trace s @ evs \<and>
           (\<forall>rest. read_record rcd (evs @ rest) = Some (seen, rest)) \<and>
           (r \<noteq> None) = (seen = SeenFailed) \<and>
           updatedRecords' = updatedRecords @ reported [seen]"
proof (cases "Worker_Get (ManagerConfig_Worker (ManagerConfig m)) (Record_CacheRefID rcd) (world s)")
  case (Pair rg w1)
  show ?thesis
  proof (cases rg)
    case (Inl err)
    with Pair assms have "r = None" "updatedRecords' = updatedRecords"
      "trace s' = trace s @ [EvGet (Record_CacheRefID rcd) (Inl err)]"
      by (auto simp: Export_record_def call_def)
    then show ?thesis
      by (intro exI[of _ "[EvGet (Record_CacheRefID rcd) (Inl err)]"] exI[of _ SeenSkipped])
         (simp add: read_record_def)
  next
    case (Inr cacheRef)
    let ?s1 = "\<lparr>world = w1, trace = trace s @ [EvGet (Record_CacheRefID rcd) (Inr cacheRef)]\<rparr>"
    obtain rr w2 where g: "ImmutableRef_GetRemotes lib cacheRef True Zstd False w1 = (rr, w2)"
      by (cases "ImmutableRef_GetRemotes lib cacheRef True Zstd False w1")
    let ?s2 = "\<lparr>world = w2, trace = trace s @ [EvGet (Record_CacheRefID rcd) (Inr cacheRef), EvGetRemotes cacheRef rr]\<rparr>"
    show ?thesis
    proof (cases rr)
      case Inl2: (Inl err)
      with Pair Inr g assms have "r = Some err" "updatedRecords' = updatedRecords"
        "trace s' = trace s @ [EvGet (Record_CacheRefID rcd) (Inr cacheRef), EvGetRemotes cacheRef (Inl err),
                               EvRefRelease cacheRef]"
        by (auto simp: Export_record_def call_def perform_def)
      then show ?thesis
        by (intro exI[of _ "[EvGet (Record_CacheRefID rcd) (Inr cacheRef), EvGetRemotes cacheRef (Inl err),
                               EvRefRelease cacheRef]"] exI[of _ SeenFailed])
           (simp add: read_record_def)
    next
      case Inr2: (Inr remotes)
      show ?thesis
      proof (cases remotes)
        case Nil
        with Pair Inr Inr2 g assms have "r = None" "updatedRecords' = updatedRecords"
          "trace s' = trace s @ [EvGet (Record_CacheRefID rcd) (Inr cacheRef), EvGetRemotes cacheRef (Inr []),
                                 EvRefRelease cacheRef]"
          by (auto simp: Export_record_def call_def perform_def)
        then show ?thesis
          by (intro exI[of _ "[EvGet (Record_CacheRefID rcd) (Inr cacheRef), EvGetRemotes cacheRef (Inr []),
                                 EvRefRelease cacheRef]"] exI[of _ SeenSkipped])
             (simp add: read_record_def)
      next
        case (Cons remote others)
        obtain r3 s3 where l: "for_range (\<lambda>layer. pushLayer lib m layer (Remote_Provider remote))
                                 (Remote_Descriptors remote) ?s2 = (r3, s3)"
          by (cases "for_range (\<lambda>layer. pushLayer lib m layer (Remote_Provider remote))
                                 (Remote_Descriptors remote) ?s2")
        from pushLayers_reads[OF l] obtain evs3 where
          t3: "trace s3 = trace ?s2 @ evs3" and
          u3: "\<And>rest. read_uploads (Remote_Provider remote) (Remote_Descriptors remote) (evs3 @ rest) =
                         Some (r3 = None, rest)"
          by blast
        let ?evs = "[EvGet (Record_CacheRefID rcd) (Inr cacheRef), EvGetRemotes cacheRef (Inr (remote # others))]
                      @ evs3 @ [EvRefRelease cacheRef]"
        let ?seen = "if r3 = None
                     then SeenUploaded \<lparr> RecordLayers_RecordDigest = Record_Digest rcd,
                                         RecordLayers_Layers = Remote_Descriptors remote \<rparr>
                     else SeenFailed"
        from Pair Inr Inr2 g Cons l assms have
          r: "r = r3" and
          u: "updatedRecords' = (if r3 = None
                then updatedRecords @ [\<lparr> RecordLayers_RecordDigest = Record_Digest rcd,
                                         RecordLayers_Layers = Remote_Descriptors remote \<rparr>]
                else updatedRecords)" and
          t: "trace s' = trace s3 @ [EvRefRelease cacheRef]"
          by (auto simp: Export_record_def call_def perform_def split: option.splits)
        have A: "trace s' = trace s @ ?evs" using t t3 Inr2 Cons by simp
        have B: "\<forall>rest. read_record rcd (?evs @ rest) = Some (?seen, rest)"
          using u3[of "EvRefRelease cacheRef # rest" for rest] by (simp add: read_record_def)
        have C: "(r \<noteq> None) = (?seen = SeenFailed)" using r by simp
        have D: "updatedRecords' = updatedRecords @ reported [?seen]" using u by simp
        show ?thesis
          apply (rule exI[of _ ?evs])
          apply (rule exI[of _ ?seen])
          apply (intro conjI)
             apply (rule A)
            apply (rule B)
           apply (rule C)
          apply (rule D)
          done
      qed
    qed
  qed
qed

lemma reported_append: "reported (xs @ ys) = reported xs @ reported ys"
  by (induction xs rule: reported.induct) auto

lemma Export_records_reads:
  "for_range (Export_record lib m) records (updatedRecords, s) = (r, updatedRecords', s') \<Longrightarrow>
     \<exists>evs seens. trace s' = trace s @ evs \<and>
        read_records records evs = Some seens \<and>
        (r \<noteq> None) = (SeenFailed \<in> set seens) \<and>
        updatedRecords' = updatedRecords @ reported seens"
proof (induction records arbitrary: updatedRecords s)
  case Nil
  then show ?case by simp
next
  case (Cons rcd records)
  obtain r1 ur1 s1 where b: "Export_record lib m rcd (updatedRecords, s) = (r1, ur1, s1)"
    by (cases "Export_record lib m rcd (updatedRecords, s)")
  from Export_record_reads[OF b] obtain evs1 seen where
    t1: "trace s1 = trace s @ evs1" and
    u1: "\<And>rest. read_record rcd (evs1 @ rest) = Some (seen, rest)" and
    f1: "(r1 \<noteq> None) = (seen = SeenFailed)" and
    a1: "ur1 = updatedRecords @ reported [seen]"
    by blast
  show ?case
  proof (cases r1)
    case (Some err)
    with b Cons.prems have "r = Some err" "updatedRecords' = ur1" "s' = s1" by simp_all
    moreover from Some f1 have "seen = SeenFailed" by simp
    ultimately show ?thesis using t1 u1[of "[]"] a1
      by (intro exI[of _ evs1] exI[of _ "[SeenFailed]"]) simp
  next
    case None
    with f1 have ns: "seen \<noteq> SeenFailed" by simp
    from None b Cons.prems have "for_range (Export_record lib m) records (ur1, s1) = (r, updatedRecords', s')"
      by simp
    from Cons.IH[OF this] obtain evs2 seens where
      t2: "trace s' = trace s1 @ evs2" and
      u2: "read_records records evs2 = Some seens" and
      f2: "(r \<noteq> None) = (SeenFailed \<in> set seens)" and
      a2: "updatedRecords' = ur1 @ reported seens"
      by blast
    have A: "trace s' = trace s @ (evs1 @ evs2)" using t1 t2 by simp
    have B: "read_records (rcd # records) (evs1 @ evs2) = Some (seen # seens)"
      using u1[of evs2] u2 ns by (cases seen) simp_all
    have C: "(r \<noteq> None) = (SeenFailed \<in> set (seen # seens))" using f2 ns by auto
    have D: "updatedRecords' = updatedRecords @ reported (seen # seens)"
      using a1 a2 reported_append[of "[seen]" seens] by simp
    show ?thesis
      apply (rule exI[of _ "evs1 @ evs2"])
      apply (rule exI[of _ "seen # seens"])
      apply (intro conjI)
         apply (rule A)
        apply (rule B)
       apply (rule C)
      apply (rule D)
      done
  qed
qed

subsection \<open>Import\<close>



lemma Import_trace:
  "Import lib m s = (r, m', s') \<Longrightarrow> \<exists>w. s' = \<lparr>world = w, trace = trace s @ [EvImportCache]\<rparr>"
  by (auto simp: Import_def call_def Let_def split: prod.splits sum.splits option.splits)

subsection \<open>Unfolding the model and the example collaborators\<close>

lemmas example_defs =
  example_Time_def example_Descriptor_def example_KeyStore_def example_ResultStore_def
  example_Worker_def example_ManagerConfig_def example_Service_def example_lib_def
  example_Config_def example_manager_def example_state_def Go_MarshalText_def
  example_MarshalText_def example_layer_def example_Record_def
  upload_Service_def skipping_Service_def import_Service_def

lemmas model_defs =
  Export_def walk_def Walk_fn_def WalkResults_fn_def WalkBacklinks_fn_def Export_record_def
  pushLayer_def call_def perform_def Let_def StatusOK_def Import_def Import_layer_def
  NewManager_def ID_def phase3_record_def descriptorProviderPair_def IsZero_def Close_def
  Manager_call_def manager_call_def flatten_def

section \<open>The claims\<close>

subsection \<open>Import\<close>

text \<open>
  C5, as amended. For every advertised layer, the translation to a descriptor fails when
  \<open>Annotations\<close> is nil, when \<open>DiffID\<close> is empty, and also when \<open>CreatedAt\<close> is not zero and
  cannot be serialized (the error of the serialization is returned). In every other
  case the descriptor carries the annotation \<open>containerd.io/uncompressed\<close> with the diff
  ID, carries the annotation \<open>buildkit/createdat\<close> with the serialized time exactly when
  \<open>CreatedAt\<close> is not zero, and takes its media type and size from the annotations of the
  layer and its digest from the blob.
\<close>

theorem descriptorProviderPair_descriptor:
  "(CacheLayer_Annotations layerMetadata = None \<longrightarrow>
      descriptorProviderPair MarshalText layerMetadata =
        Inl (Error (''missing annotations for layer '' @ CacheLayer_Blob layerMetadata))) \<and>
   (\<forall>anns. CacheLayer_Annotations layerMetadata = Some anns \<longrightarrow>
      (LayerAnnotations_DiffID anns = '''' \<longrightarrow>
         descriptorProviderPair MarshalText layerMetadata =
           Inl (Error (''missing diffID for layer '' @ CacheLayer_Blob layerMetadata))) \<and>
      (LayerAnnotations_DiffID anns \<noteq> '''' \<longrightarrow>
         (\<forall>err. \<not> IsZero (LayerAnnotations_CreatedAt anns) \<and>
                MarshalText (LayerAnnotations_CreatedAt anns) = Inl err \<longrightarrow>
                descriptorProviderPair MarshalText layerMetadata = Inl err) \<and>
         (IsZero (LayerAnnotations_CreatedAt anns) \<or>
          \<not> isl (MarshalText (LayerAnnotations_CreatedAt anns)) \<longrightarrow>
            (\<exists>pair. descriptorProviderPair MarshalText layerMetadata = Inr pair \<and>
               Descriptor_Annotations (Pair_Descriptor pair) ''containerd.io/uncompressed'' =
                 Some (LayerAnnotations_DiffID anns) \<and>
               Descriptor_Annotations (Pair_Descriptor pair) ''buildkit/createdat'' =
                 (if IsZero (LayerAnnotations_CreatedAt anns) then None
                  else Some (projr (MarshalText (LayerAnnotations_CreatedAt anns)))) \<and>
               Descriptor_MediaType (Pair_Descriptor pair) = LayerAnnotations_MediaType anns \<and>
               Descriptor_Size (Pair_Descriptor pair) = LayerAnnotations_Size anns \<and>
               Descriptor_Digest (Pair_Descriptor pair) = CacheLayer_Blob layerMetadata))))"
proof (cases "CacheLayer_Annotations layerMetadata")
  case None
  then show ?thesis by (simp add: descriptorProviderPair_def)
next
  case (Some anns)
  show ?thesis
  proof (cases "LayerAnnotations_DiffID anns = ''''")
    case True
    with Some show ?thesis by (simp add: descriptorProviderPair_def)
  next
    case False
    show ?thesis
    proof (cases "IsZero (LayerAnnotations_CreatedAt anns)")
      case True
      with Some False show ?thesis by (simp add: descriptorProviderPair_def)
    next
      case nz: False
      show ?thesis
      proof (cases "MarshalText (LayerAnnotations_CreatedAt anns)")
        case (Inl err)
        with Some False nz show ?thesis by (simp add: descriptorProviderPair_def)
      next
        case (Inr createdAt)
        with Some False nz show ?thesis by (simp add: descriptorProviderPair_def)
      qed
    qed
  qed
qed

text \<open>
  A layer created in the year 2024, with a diff ID: its descriptor has both annotations.
\<close>

theorem descriptorProviderPair_descriptor_witness:
  "\<exists>pair. descriptorProviderPair example_MarshalText (example_layer example_Time ''sha256:d1'') = Inr pair \<and>
     Descriptor_Annotations (Pair_Descriptor pair) ''containerd.io/uncompressed'' = Some ''sha256:d1'' \<and>
     Descriptor_Annotations (Pair_Descriptor pair) ''buildkit/createdat'' = Some ''2024-03-01T00:00:00Z'' \<and>
     Descriptor_Digest (Pair_Descriptor pair) = ''sha256:b1''"
  using descriptorProviderPair_descriptor
          [of "example_layer example_Time ''sha256:d1''" example_MarshalText]
  by (auto simp add: example_defs IsZero_def)

text \<open>
  C5 as it is stated says that the translation produces a descriptor whenever
  \<open>Annotations\<close> is not nil and \<open>DiffID\<close> is not empty. A layer created at the first
  second of the year 10000 has both, and its translation fails.
\<close>

theorem descriptorProviderPair_counterexample:
  "CacheLayer_Annotations (example_layer \<lparr> sec = 315537897600, nsec = 0 \<rparr> ''sha256:d1'') \<noteq> None \<and>
   LayerAnnotations_DiffID
     (the (CacheLayer_Annotations (example_layer \<lparr> sec = 315537897600, nsec = 0 \<rparr> ''sha256:d1''))) \<noteq> '''' \<and>
   descriptorProviderPair example_MarshalText
     (example_layer \<lparr> sec = 315537897600, nsec = 0 \<rparr> ''sha256:d1'') =
       Inl (Error ''Time.MarshalText: year outside of range [0,9999]'')"
  by (simp add: example_defs descriptorProviderPair_def IsZero_def)




subsection \<open>NewManager\<close>

text \<open>
  C3, as amended. For every configuration that \<open>GetConfig\<close> returns at the start of the
  manager: if one of \<open>ImportPeriod\<close>, \<open>ExportPeriod\<close> and \<open>ExportTimeout\<close> is zero,
  \<open>NewManager\<close> fails with an error whose message contains "import/export periods must
  be non-zero", and it starts no goroutine.
\<close>

theorem NewManager_rejects_zero_config:
  assumes "ServiceURL managerConfig \<noteq> ''''"
      and "newClient lib (ServiceURL managerConfig) = Inr serviceClient"
      and "GetConfig serviceClient \<lparr> GetConfigRequest_EngineID = EngineID managerConfig \<rparr> (world s) =
             (Inr config, w1)"
      and "ImportPeriod config = 0 \<or> ExportPeriod config = 0 \<or> ExportTimeout config = 0"
      and "NewManager lib managerConfig s = (r, s')"
  shows "(\<exists>err. r = Inl err \<and> message_contains err ''import/export periods must be non-zero'') \<and>
         goroutines (trace s') = goroutines (trace s)"
proof -
  have "sublist ''import/export periods must be non-zero''
          (''invalid cache config: '' @ ''import/export periods must be non-zero'' @ [])"
    by (rule sublist_appendI)
  then have sub: "sublist ''import/export periods must be non-zero''
          ''invalid cache config: import/export periods must be non-zero''"
    by simp
  from assms have "r = Inl (Error ''invalid cache config: import/export periods must be non-zero'')"
    and "trace s' = trace s @ [EvGetConfig \<lparr> GetConfigRequest_EngineID = EngineID managerConfig \<rparr>]"
    by (auto simp: NewManager_def call_def Let_def)
  with sub show ?thesis by (simp add: goroutines_append)
qed

text \<open>The service configures an import period of zero.\<close>

theorem NewManager_rejects_zero_config_witness:
  "(\<exists>err. fst (NewManager (example_lib (import_Service (example_Config\<lparr>ImportPeriod := 0\<rparr>) []))
                  (example_ManagerConfig ''https://cache'') example_state) = Inl err \<and>
          message_contains err ''import/export periods must be non-zero'') \<and>
   goroutines (trace (snd (NewManager (example_lib (import_Service (example_Config\<lparr>ImportPeriod := 0\<rparr>) []))
                  (example_ManagerConfig ''https://cache'') example_state))) = []"
  using NewManager_rejects_zero_config
          [of "example_ManagerConfig ''https://cache''"
              "example_lib (import_Service (example_Config\<lparr>ImportPeriod := 0\<rparr>) [])"
              "import_Service (example_Config\<lparr>ImportPeriod := 0\<rparr>) []"
              example_state
              "example_Config\<lparr>ImportPeriod := 0\<rparr>"
              1
              "fst (NewManager (example_lib (import_Service (example_Config\<lparr>ImportPeriod := 0\<rparr>) []))
                  (example_ManagerConfig ''https://cache'') example_state)"
              "snd (NewManager (example_lib (import_Service (example_Config\<lparr>ImportPeriod := 0\<rparr>) []))
                  (example_ManagerConfig ''https://cache'') example_state)"]
  by (simp add: example_defs)

text \<open>
  C3 as it is stated asks for an error whenever a period is not strictly positive. With
  an import period of minus one nanosecond \<open>NewManager\<close> returns a manager and starts the
  three goroutines.
\<close>

theorem NewManager_negative_period_counterexample:
  "\<not> 0 <s ImportPeriod (example_Config\<lparr>ImportPeriod := - 1\<rparr>) \<and>
   \<not> isl (fst (NewManager (example_lib (import_Service (example_Config\<lparr>ImportPeriod := - 1\<rparr>) []))
                 (example_ManagerConfig ''https://cache'') example_state)) \<and>
   goroutines (trace (snd (NewManager (example_lib (import_Service (example_Config\<lparr>ImportPeriod := - 1\<rparr>) []))
                 (example_ManagerConfig ''https://cache'') example_state))) =
     [CancelImportOnClose, ImportLoop (- 1), ExportLoop 300000000000 600000000000]"
  by (simp add: example_defs model_defs)

text \<open>
  C6. For every configuration with an empty \<open>ServiceURL\<close>, \<open>NewManager\<close> returns a
  \<open>defaultCacheManager\<close> around the local cache. It makes no call and starts no goroutine
  (the state it returns is the state it was given), and what it returns does not depend
  on the collaborators. Each of \<open>Query\<close>, \<open>Records\<close>, \<open>Load\<close> and \<open>Save\<close> on the returned
  manager is that method of the local cache, and its \<open>StartCacheMountSynchronization\<close>
  and \<open>Close\<close> return nil.
\<close>

theorem NewManager_default_manager:
  assumes "ServiceURL managerConfig = ''''"
  shows "NewManager lib managerConfig s =
           (Inr (defaultCacheManager
                   (NewCacheManager ''local'' (ManagerConfig_KeyStore managerConfig)
                      (ManagerConfig_ResultStore managerConfig))), s) \<and>
         (\<forall>lib'. NewManager lib' managerConfig s = NewManager lib managerConfig s) \<and>
         Manager_call lib
           (defaultCacheManager
              (NewCacheManager ''local'' (ManagerConfig_KeyStore managerConfig)
                 (ManagerConfig_ResultStore managerConfig))) c arg s0 =
           (case CacheManager_call lib
                   (NewCacheManager ''local'' (ManagerConfig_KeyStore managerConfig)
                      (ManagerConfig_ResultStore managerConfig)) c arg (world s0) of
              (res, w') \<Rightarrow> (Returns res, s0\<lparr>world := w'\<rparr>)) \<and>
         defaultCacheManager_StartCacheMountSynchronization
           (NewCacheManager ''local'' (ManagerConfig_KeyStore managerConfig)
              (ManagerConfig_ResultStore managerConfig)) s0 = (Returns None, s0) \<and>
         defaultCacheManager_Close
           (NewCacheManager ''local'' (ManagerConfig_KeyStore managerConfig)
              (ManagerConfig_ResultStore managerConfig)) s0 = (Returns None, s0)"
  using assms
  by (simp add: NewManager_def Manager_call_def
        defaultCacheManager_StartCacheMountSynchronization_def defaultCacheManager_Close_def)

theorem NewManager_default_manager_witness:
  "NewManager (example_lib (import_Service example_Config [])) (example_ManagerConfig '''') example_state =
     (Inr (defaultCacheManager (NewCacheManager ''local'' example_KeyStore example_ResultStore)),
      example_state) \<and>
   Manager_call (example_lib (import_Service example_Config []))
     (defaultCacheManager (NewCacheManager ''local'' example_KeyStore example_ResultStore))
     Query () example_state = (Returns (), \<lparr> world = Suc 0, trace = [] \<rparr>)"
proof -
  have url: "ServiceURL (example_ManagerConfig '''') = ''''"
    by (simp add: example_ManagerConfig_def)
  note T = NewManager_default_manager
             [OF url, of "example_lib (import_Service example_Config [])" example_state
                Query "()" example_state]
  from T[THEN conjunct1] have A:
    "NewManager (example_lib (import_Service example_Config [])) (example_ManagerConfig '''') example_state =
       (Inr (defaultCacheManager (NewCacheManager ''local'' example_KeyStore example_ResultStore)),
        example_state)"
    by (simp add: example_ManagerConfig_def)
  from T[THEN conjunct2, THEN conjunct2, THEN conjunct1] have B:
    "Manager_call (example_lib (import_Service example_Config []))
       (defaultCacheManager (NewCacheManager ''local'' example_KeyStore example_ResultStore))
       Query () example_state = (Returns (), \<lparr> world = Suc 0, trace = [] \<rparr>)"
    by (simp add: example_ManagerConfig_def example_lib_def example_state_def)
  from A B show ?thesis by simp
qed

text \<open>
  C7. For every configuration with a non-empty \<open>ServiceURL\<close> for which the construction
  reaches the initial \<open>Import\<close>: if that \<open>Import\<close> returns an error, \<open>NewManager\<close> returns
  the same error and no manager, and it starts no goroutine.
\<close>

theorem NewManager_import_error:
  assumes "ServiceURL managerConfig \<noteq> ''''"
      and "newClient lib (ServiceURL managerConfig) = Inr serviceClient"
      and "call (\<lambda>_. EvGetConfig \<lparr> GetConfigRequest_EngineID = EngineID managerConfig \<rparr>)
             (GetConfig serviceClient \<lparr> GetConfigRequest_EngineID = EngineID managerConfig \<rparr>) s =
             (Inr config, s1)"
      and "ImportPeriod config \<noteq> 0" and "ExportPeriod config \<noteq> 0" and "ExportTimeout config \<noteq> 0"
      and "Import lib
             \<lparr> ManagerConfig = managerConfig, cacheClient = serviceClient, runtimeConfig = config,
               localCache = NewCacheManager ''local'' (ManagerConfig_KeyStore managerConfig)
                              (ManagerConfig_ResultStore managerConfig),
               inner = None, startCloseCh = Open, doneCh = Open, stopCacheMountSync = None \<rparr> s1 =
             (Some err, m', s2)"
  shows "NewManager lib managerConfig s = (Inl err, s2) \<and>
         goroutines (trace s2) = goroutines (trace s)"
proof -
  from assms have "NewManager lib managerConfig s = (Inl err, s2)"
    by (simp add: NewManager_def Let_def)
  moreover from assms(7) Import_trace obtain w where
    "s2 = \<lparr>world = w, trace = trace s1 @ [EvImportCache]\<rparr>" by blast
  moreover from assms(3) have
    "trace s1 = trace s @ [EvGetConfig \<lparr> GetConfigRequest_EngineID = EngineID managerConfig \<rparr>]"
    by (auto simp: call_def split: prod.splits)
  ultimately show ?thesis by (simp add: goroutines_append)
qed

text \<open>The service advertises a layer with an empty diff ID, so the initial import fails.\<close>

theorem NewManager_import_error_witness:
  "NewManager (example_lib (import_Service example_Config [example_layer example_Time '''']))
     (example_ManagerConfig ''https://cache'') example_state =
     (Inl (Error ''missing diffID for layer sha256:b1''),
      \<lparr> world = 2, trace = [EvGetConfig \<lparr> GetConfigRequest_EngineID = ''engine-1'' \<rparr>, EvImportCache] \<rparr>) \<and>
   goroutines [EvGetConfig \<lparr> GetConfigRequest_EngineID = ''engine-1'' \<rparr>, EvImportCache] = []"
  using NewManager_import_error
          [of "example_ManagerConfig ''https://cache''"
              "example_lib (import_Service example_Config [example_layer example_Time ''''])"
              "import_Service example_Config [example_layer example_Time '''']"
              example_state example_Config
              "\<lparr> world = 1, trace = [EvGetConfig \<lparr> GetConfigRequest_EngineID = ''engine-1'' \<rparr>] \<rparr>"
              "Error ''missing diffID for layer sha256:b1''"
              "\<lparr> ManagerConfig = example_ManagerConfig ''https://cache'',
                 cacheClient = import_Service example_Config [example_layer example_Time ''''],
                 runtimeConfig = example_Config,
                 localCache = NewCacheManager ''local'' example_KeyStore example_ResultStore,
                 inner = None, startCloseCh = Open, doneCh = Open, stopCacheMountSync = None \<rparr>"
              "\<lparr> world = 2, trace = [EvGetConfig \<lparr> GetConfigRequest_EngineID = ''engine-1'' \<rparr>, EvImportCache] \<rparr>"]
  by (simp add: example_defs model_defs)

subsection \<open>Close\<close>

text \<open>
  C10. For every manager backed by the service, \<open>Close\<close> is not idempotent. A call of
  \<open>Close\<close> leaves \<open>startCloseCh\<close> closed, whatever else it does; on an open channel it does
  not panic; and a call of \<open>Close\<close> after it panics with "close of closed channel" and
  changes nothing. The manager that \<open>NewManager\<close> returns has an open \<open>startCloseCh\<close>.
\<close>

lemma NewManager_channel_open:
  "NewManager lib managerConfig s0 = (Inr (ServiceManager m0), s0') \<Longrightarrow> startCloseCh m0 = Open"
  by (auto simp: NewManager_def Import_def call_def Let_def
           split: if_splits sum.splits prod.splits option.splits)

theorem Close_twice_panics:
  assumes "Close m woken s = (out1, m1, s1)"
  shows "startCloseCh m1 = Closed \<and>
         (startCloseCh m = Open \<longrightarrow> out1 = Blocks \<or> (\<exists>rerr. out1 = Returns rerr)) \<and>
         Close m1 woken' s1 = (Panics ''close of closed channel'', m1, s1) \<and>
         (NewManager lib managerConfig s0 = (Inr (ServiceManager m0), s0') \<longrightarrow>
            startCloseCh m0 = Open)"
proof -
  from assms have closed: "startCloseCh m1 = Closed"
    and first: "startCloseCh m = Open \<longrightarrow> out1 = Blocks \<or> (\<exists>rerr. out1 = Returns rerr)"
    by (auto simp: Close_def Let_def split: chan.splits prod.splits if_splits option.splits)
  from closed have "Close m1 woken' s1 = (Panics ''close of closed channel'', m1, s1)"
    by (simp add: Close_def)
  with closed first show ?thesis
    by (simp add: NewManager_channel_open)
qed

text \<open>
  The manager that \<open>NewManager\<close> returns for the example collaborators, with no hook; its
  export loop ends while the first \<open>Close\<close> waits.
\<close>

theorem Close_twice_panics_witness:
  "NewManager (example_lib (import_Service example_Config [])) (example_ManagerConfig ''https://cache'')
     example_state = (Inr (ServiceManager example_started), example_started_state) \<and>
   startCloseCh example_started = Open \<and>
   Close example_started True example_started_state =
     (Returns None, example_started\<lparr>startCloseCh := Closed\<rparr>, example_started_state) \<and>
   Close (example_started\<lparr>startCloseCh := Closed\<rparr>) True example_started_state =
     (Panics ''close of closed channel'',
      example_started\<lparr>startCloseCh := Closed\<rparr>, example_started_state)"
proof -
  have new: "NewManager (example_lib (import_Service example_Config []))
               (example_ManagerConfig ''https://cache'') example_state =
             (Inr (ServiceManager example_started), example_started_state)"
    by (simp add: example_defs model_defs example_started_def example_started_state_def)
  have first: "Close example_started True example_started_state =
                 (Returns None, example_started\<lparr>startCloseCh := Closed\<rparr>, example_started_state)"
    by (simp add: Close_def example_started_def example_manager_def)
  from Close_twice_panics
         [OF first, of True "example_lib (import_Service example_Config [])"
            "example_ManagerConfig ''https://cache''" example_state example_started
            example_started_state]
       new first
  show ?thesis by simp
qed

subsection \<open>Export\<close>




text \<open>
  C1. For every run of \<open>Export\<close> in which the walk succeeded and \<open>UpdateCacheRecords\<close>
  returned a response. If the list \<open>ExportRecords\<close> is empty, \<open>Export\<close> returns nil in the
  state the call left: no layer is uploaded and \<open>UpdateCacheLayers\<close> is not called. If
  the list is not empty, the events that follow the call are those of the requested
  records, one record after the other, as \<open>read_records\<close> reads them. If they show no
  record whose upload failed, they are followed by one call of \<open>UpdateCacheLayers\<close>, the
  last event of the run, with the \<open>RecordLayers\<close> of exactly the records that the events
  show as uploaded (every layer of the record answered with status 200), in their order,
  so with none for a record that was skipped; \<open>Export\<close> returns what this call returns.
  If they show a record whose upload failed, \<open>Export\<close> returns an error and
  \<open>UpdateCacheLayers\<close> is not called. So a run that returns nil shows no failed record.
\<close>

theorem Export_reports_uploaded_records:
  assumes walk: "walk (Walk (ManagerConfig_KeyStore (ManagerConfig m))) (Walk_fn lib m) ([], [], s) =
                   (None, cacheKeys, links, s1)"
      and announce: "call (\<lambda>_. EvUpdateCacheRecords \<lparr> CacheKeys = cacheKeys, Links = links \<rparr>)
             (UpdateCacheRecords (cacheClient m) \<lparr> CacheKeys = cacheKeys, Links = links \<rparr>) s1 = (Inr resp, s2)"
      and run: "Export lib m s = (r, s')"
  shows "(ExportRecords resp = [] \<longrightarrow>
            r = None \<and> s' = s2 \<and>
            commits (trace s') = commits (trace s) \<and> uploads (trace s') = uploads (trace s)) \<and>
         (ExportRecords resp \<noteq> [] \<longrightarrow>
            (\<exists>evs seens.
               read_records (ExportRecords resp) evs = Some seens \<and>
               (if SeenFailed \<in> set seens
                then r \<noteq> None \<and> trace s' = trace s2 @ evs \<and>
                     commits (trace s') = commits (trace s)
                else trace s' = trace s2 @ evs @ [EvUpdateCacheLayers \<lparr> UpdatedRecords = reported seens \<rparr>] \<and>
                     commits (trace s') = commits (trace s) @ [\<lparr> UpdatedRecords = reported seens \<rparr>] \<and>
                     (\<exists>w. (r, world s') =
                            UpdateCacheLayers (cacheClient m) \<lparr> UpdatedRecords = reported seens \<rparr> w))))"
proof -
  from walk have "extends walk_event s s1" by (rule walk_extends)
  then have c1: "commits (trace s1) = commits (trace s)" and u1: "uploads (trace s1) = uploads (trace s)"
    by (simp_all add: extends_commits)
  from announce have t2: "trace s2 = trace s1 @ [EvUpdateCacheRecords \<lparr> CacheKeys = cacheKeys, Links = links \<rparr>]"
    by (auto simp: call_def split: prod.splits)
  then have c2: "commits (trace s2) = commits (trace s)" and u2: "uploads (trace s2) = uploads (trace s)"
    using c1 u1 by (simp_all add: commits_append uploads_append)
  obtain r3 updatedRecords s3 where
    loop: "for_range (Export_record lib m) (ExportRecords resp) ([], s2) = (r3, updatedRecords, s3)"
    by (cases "for_range (Export_record lib m) (ExportRecords resp) ([], s2)") auto
  note E = Export_after_announce[OF walk announce run loop]
  from Export_records_outcomes[OF loop] have "extends upload_event s2 s3" by simp
  then have c3: "commits (trace s3) = commits (trace s)"
    using c2 by (simp add: extends_upload_commits)
  from Export_records_reads[OF loop] obtain evs seens where
    t3: "trace s3 = trace s2 @ evs" and
    rd: "read_records (ExportRecords resp) evs = Some seens" and
    f: "(r3 \<noteq> None) = (SeenFailed \<in> set seens)" and
    u: "updatedRecords = reported seens"
    by auto
  show ?thesis
  proof (cases "ExportRecords resp = []")
    case True
    with E c2 u2 show ?thesis by simp
  next
    case False
    have "\<exists>evs seens.
               read_records (ExportRecords resp) evs = Some seens \<and>
               (if SeenFailed \<in> set seens
                then r \<noteq> None \<and> trace s' = trace s2 @ evs \<and>
                     commits (trace s') = commits (trace s)
                else trace s' = trace s2 @ evs @ [EvUpdateCacheLayers \<lparr> UpdatedRecords = reported seens \<rparr>] \<and>
                     commits (trace s') = commits (trace s) @ [\<lparr> UpdatedRecords = reported seens \<rparr>] \<and>
                     (\<exists>w. (r, world s') =
                            UpdateCacheLayers (cacheClient m) \<lparr> UpdatedRecords = reported seens \<rparr> w))"
    proof (cases r3)
      case (Some err)
      with E False have "r = Some err" "s' = s3" by simp_all
      with Some f t3 c3 rd show ?thesis
        by (intro exI[of _ evs] exI[of _ seens]) simp
    next
      case None
      with E False u have "(r, s') = call (\<lambda>_. EvUpdateCacheLayers \<lparr> UpdatedRecords = reported seens \<rparr>)
                                    (UpdateCacheLayers (cacheClient m) \<lparr> UpdatedRecords = reported seens \<rparr>) s3"
        by simp
      from call_commit[OF this] have
        t': "trace s' = trace s3 @ [EvUpdateCacheLayers \<lparr> UpdatedRecords = reported seens \<rparr>]" and
        w: "(r, world s') = UpdateCacheLayers (cacheClient m) \<lparr> UpdatedRecords = reported seens \<rparr> (world s3)"
        by simp_all
      from None f have nf: "SeenFailed \<notin> set seens" by simp
      from t' t3 have A: "trace s' = trace s2 @ evs @ [EvUpdateCacheLayers \<lparr> UpdatedRecords = reported seens \<rparr>]"
        by simp
      from t' c3 have B: "commits (trace s') = commits (trace s) @ [\<lparr> UpdatedRecords = reported seens \<rparr>]"
        by (simp add: commits_append)
      from w have C: "\<exists>w. (r, world s') =
                            UpdateCacheLayers (cacheClient m) \<lparr> UpdatedRecords = reported seens \<rparr> w"
        by (rule exI)
      from rd nf A B C show ?thesis
        by (intro exI[of _ evs] exI[of _ seens]) simp
    qed
    with False show ?thesis by simp
  qed
qed

text \<open>
  The service asks for \<open>pruned\<close>, whose ref is not found, for \<open>r1\<close>, whose two layers are
  uploaded, and for \<open>empty\<close>, which has no remotes: only \<open>r1\<close> is reported. Then the
  service asks for \<open>r1\<close> and for \<open>broken\<close>, the upload of whose second layer is answered
  with status 500: \<open>Export\<close> returns the error and reports nothing.
\<close>

theorem Export_reports_uploaded_records_witness:
  "fst (Export (example_lib (upload_Service None)) (example_manager (upload_Service None))
          example_state) = None \<and>
   read_records [example_Record ''pruned'', example_Record ''r1'', example_Record ''empty'']
     (drop 4 (butlast (trace (snd (Export (example_lib (upload_Service None))
                                      (example_manager (upload_Service None)) example_state))))) =
     Some [SeenSkipped, SeenUploaded example_RecordLayers, SeenSkipped] \<and>
   commits (trace (snd (Export (example_lib (upload_Service None)) (example_manager (upload_Service None))
          example_state))) = [\<lparr> UpdatedRecords = [example_RecordLayers] \<rparr>] \<and>
   fst (Export (example_lib (broken_Service None)) (example_manager (broken_Service None))
          example_state) = Some (UnexpectedStatusCode 500) \<and>
   read_records [example_Record ''r1'', example_Record ''broken'']
     (drop 4 (trace (snd (Export (example_lib (broken_Service None))
                             (example_manager (broken_Service None)) example_state)))) =
     Some [SeenUploaded example_RecordLayers, SeenFailed] \<and>
   commits (trace (snd (Export (example_lib (broken_Service None)) (example_manager (broken_Service None))
          example_state))) = []"
proof -
  let ?lib = "example_lib (upload_Service None)"
  let ?m = "example_manager (upload_Service None)"
  let ?libB = "example_lib (broken_Service None)"
  let ?mB = "example_manager (broken_Service None)"
  have walk: "walk (Walk (ManagerConfig_KeyStore (ManagerConfig ?m))) (Walk_fn ?lib ?m) ([], [], example_state) =
                (None, example_CacheKeys, example_Links, example_walked)"
    by (simp add: example_defs model_defs example_CacheKeys_def example_Links_def
          example_walk_events_def example_walked_def)
  have announce: "call (\<lambda>_. EvUpdateCacheRecords \<lparr> CacheKeys = example_CacheKeys, Links = example_Links \<rparr>)
             (UpdateCacheRecords (cacheClient ?m) \<lparr> CacheKeys = example_CacheKeys, Links = example_Links \<rparr>)
             example_walked =
           (Inr \<lparr> ExportRecords = [example_Record ''pruned'', example_Record ''r1'', example_Record ''empty''] \<rparr>,
            example_announced)"
    by (simp add: example_defs call_def example_walked_def example_announced_def)
  have run: "Export ?lib ?m example_state = (fst (Export ?lib ?m example_state), snd (Export ?lib ?m example_state))"
    by simp
  have walkB: "walk (Walk (ManagerConfig_KeyStore (ManagerConfig ?mB))) (Walk_fn ?libB ?mB) ([], [], example_state) =
                (None, example_CacheKeys, example_Links, example_walked)"
    by (simp add: example_defs model_defs broken_Service_def example_CacheKeys_def example_Links_def
          example_walk_events_def example_walked_def)
  have announceB: "call (\<lambda>_. EvUpdateCacheRecords \<lparr> CacheKeys = example_CacheKeys, Links = example_Links \<rparr>)
             (UpdateCacheRecords (cacheClient ?mB) \<lparr> CacheKeys = example_CacheKeys, Links = example_Links \<rparr>)
             example_walked =
           (Inr \<lparr> ExportRecords = [example_Record ''r1'', example_Record ''broken''] \<rparr>,
            example_announced)"
    by (simp add: example_defs broken_Service_def call_def example_walked_def example_announced_def)
  have runB: "Export ?libB ?mB example_state =
                (fst (Export ?libB ?mB example_state), snd (Export ?libB ?mB example_state))"
    by simp
  have ok: "fst (Export ?lib ?m example_state) = None"
    by (simp add: example_defs model_defs)
  have read: "read_records [example_Record ''pruned'', example_Record ''r1'', example_Record ''empty'']
     (drop 4 (butlast (trace (snd (Export ?lib ?m example_state))))) =
     Some [SeenSkipped, SeenUploaded example_RecordLayers, SeenSkipped]"
    by (simp add: example_defs model_defs read_record_def read_upload_def example_RecordLayers_def)
  have committed: "commits (trace (snd (Export ?lib ?m example_state))) =
                     [\<lparr> UpdatedRecords = [example_RecordLayers] \<rparr>]"
    by (simp add: example_defs model_defs example_RecordLayers_def)
  have failed: "fst (Export ?libB ?mB example_state) = Some (UnexpectedStatusCode 500)"
    by (simp add: example_defs model_defs broken_Service_def)
  have readB: "read_records [example_Record ''r1'', example_Record ''broken'']
     (drop 4 (trace (snd (Export ?libB ?mB example_state)))) =
     Some [SeenUploaded example_RecordLayers, SeenFailed]"
    by (simp add: example_defs model_defs broken_Service_def read_record_def read_upload_def
          example_RecordLayers_def)
  have uncommitted: "commits (trace (snd (Export ?libB ?mB example_state))) = []"
    by (simp add: example_defs model_defs broken_Service_def)
  from Export_reports_uploaded_records[OF walk announce run]
       Export_reports_uploaded_records[OF walkB announceB runB]
       ok read committed failed readB uncommitted
  show ?thesis by simp
qed

text \<open>
  C9, as amended. If \<open>UpdateCacheRecords\<close> returns a list of records that is not empty and
  every one of them is skipped in the third phase, \<open>Export\<close> still calls
  \<open>UpdateCacheLayers\<close>, with an empty list of updated records, and returns what that call
  returns: nil when the call succeeds, its error otherwise.
\<close>

theorem Export_all_skipped_commits_empty:
  assumes walk: "walk (Walk (ManagerConfig_KeyStore (ManagerConfig m))) (Walk_fn lib m) ([], [], s) =
                   (None, cacheKeys, links, s1)"
      and announce: "call (\<lambda>_. EvUpdateCacheRecords \<lparr> CacheKeys = cacheKeys, Links = links \<rparr>)
             (UpdateCacheRecords (cacheClient m) \<lparr> CacheKeys = cacheKeys, Links = links \<rparr>) s1 = (Inr resp, s2)"
      and run: "Export lib m s = (r, s')"
      and nonempty: "ExportRecords resp \<noteq> []"
      and skipped: "\<forall>outcome \<in> set (phase3 lib m (ExportRecords resp) s2). outcome = Skipped"
  shows "commits (trace s') = commits (trace s) @ [\<lparr> UpdatedRecords = [] \<rparr>] \<and>
         (\<exists>w. (r, world s') = UpdateCacheLayers (cacheClient m) \<lparr> UpdatedRecords = [] \<rparr> w)"
proof -
  from walk have "extends walk_event s s1" by (rule walk_extends)
  then have c1: "commits (trace s1) = commits (trace s)" by (simp add: extends_commits)
  from announce have "trace s2 = trace s1 @ [EvUpdateCacheRecords \<lparr> CacheKeys = cacheKeys, Links = links \<rparr>]"
    by (auto simp: call_def split: prod.splits)
  then have c2: "commits (trace s2) = commits (trace s)" using c1 by (simp add: commits_append)
  obtain r3 updatedRecords s3 where
    loop: "for_range (Export_record lib m) (ExportRecords resp) ([], s2) = (r3, updatedRecords, s3)"
    by (cases "for_range (Export_record lib m) (ExportRecords resp) ([], s2)") auto
  note E = Export_after_announce[OF walk announce run loop]
  note O = Export_records_outcomes[OF loop]
  note S = all_skipped[OF skipped]
  from O have "extends upload_event s2 s3" by simp
  then have c3: "commits (trace s3) = commits (trace s)" using c2 by (simp add: extends_upload_commits)
  from O S have r3: "r3 = None" by (cases r3) auto
  with O S have u: "updatedRecords = []" by simp
  from E nonempty r3 u have "(r, s') = call (\<lambda>_. EvUpdateCacheLayers \<lparr> UpdatedRecords = [] \<rparr>)
                                    (UpdateCacheLayers (cacheClient m) \<lparr> UpdatedRecords = [] \<rparr>) s3"
    by simp
  from call_commit[OF this] c3 show ?thesis by (auto simp: commits_append)
qed

text \<open>
  The service asks for \<open>pruned\<close> and \<open>empty\<close> and accepts the commit: \<open>Export\<close> commits the
  empty list and returns nil.
\<close>

theorem Export_all_skipped_commits_empty_witness:
  "commits (trace (snd (Export (example_lib (skipping_Service None))
                          (example_manager (skipping_Service None)) example_state))) =
     [\<lparr> UpdatedRecords = [] \<rparr>] \<and>
   fst (Export (example_lib (skipping_Service None))
          (example_manager (skipping_Service None)) example_state) = None"
proof -
  let ?lib = "example_lib (skipping_Service None)"
  let ?m = "example_manager (skipping_Service None)"
  have walk: "walk (Walk (ManagerConfig_KeyStore (ManagerConfig ?m))) (Walk_fn ?lib ?m) ([], [], example_state) =
                (None, example_CacheKeys, example_Links, example_walked)"
    by (simp add: example_defs model_defs example_CacheKeys_def example_Links_def
          example_walk_events_def example_walked_def)
  have announce: "call (\<lambda>_. EvUpdateCacheRecords \<lparr> CacheKeys = example_CacheKeys, Links = example_Links \<rparr>)
             (UpdateCacheRecords (cacheClient ?m) \<lparr> CacheKeys = example_CacheKeys, Links = example_Links \<rparr>)
             example_walked =
           (Inr \<lparr> ExportRecords = [example_Record ''pruned'', example_Record ''empty''] \<rparr>,
            example_announced)"
    by (simp add: example_defs call_def example_walked_def example_announced_def)
  have run: "Export ?lib ?m example_state = (fst (Export ?lib ?m example_state), snd (Export ?lib ?m example_state))"
    by simp
  have outcomes: "phase3 ?lib ?m [example_Record ''pruned'', example_Record ''empty''] example_announced =
                    [Skipped, Skipped]"
    by (simp add: example_defs model_defs example_announced_def)
  have ok: "fst (Export ?lib ?m example_state) = None"
    by (simp add: example_defs model_defs)
  have nonempty: "ExportRecords \<lparr> ExportRecords = [example_Record ''pruned'', example_Record ''empty''] \<rparr> \<noteq> []"
    by simp
  have skipped: "\<forall>outcome \<in> set (phase3 ?lib ?m
                     (ExportRecords \<lparr> ExportRecords = [example_Record ''pruned'', example_Record ''empty''] \<rparr>)
                     example_announced). outcome = Skipped"
    using outcomes by simp
  from Export_all_skipped_commits_empty[OF walk announce run nonempty skipped] ok
  show ?thesis by (simp add: example_state_def)
qed

text \<open>
  C9 as it is stated says that \<open>Export\<close> returns success in that case. Here the service
  asks for \<open>pruned\<close> and \<open>empty\<close>, both are skipped, \<open>UpdateCacheLayers\<close> is called with
  the empty list and returns an error, and \<open>Export\<close> returns that error.
\<close>

theorem Export_all_skipped_counterexample:
  "[example_Record ''pruned'', example_Record ''empty''] \<noteq> [] \<and>
   phase3 (example_lib (skipping_Service (Some (Error ''unavailable''))))
     (example_manager (skipping_Service (Some (Error ''unavailable''))))
     [example_Record ''pruned'', example_Record ''empty''] example_announced = [Skipped, Skipped] \<and>
   commits (trace (snd (Export (example_lib (skipping_Service (Some (Error ''unavailable''))))
                          (example_manager (skipping_Service (Some (Error ''unavailable''))))
                          example_state))) = [\<lparr> UpdatedRecords = [] \<rparr>] \<and>
   fst (Export (example_lib (skipping_Service (Some (Error ''unavailable''))))
          (example_manager (skipping_Service (Some (Error ''unavailable''))))
          example_state) = Some (Error ''unavailable'')"
  by (simp add: example_defs model_defs example_announced_def)

end
